theory Spec2Isabelle
  imports Complex_Main "HOL-Library.Word"
begin

section \<open>Numbers\<close>

text \<open>
  The program is TypeScript; every \<open>number\<close> is an IEEE binary64 double. The embedding
  computes on \<open>real\<close>. Two computations are compared for equality with one of their
  inputs, which rounding decides: the depth of a pass and the interpolation of the custom
  curve. There every operation is rounded to the nearest double by \<open>fl\<close>, defined below.
  Everywhere else the expressions of the code are evaluated exactly. Overflow to an
  infinity is not modelled. What is modelled is every place where finite inputs give a
  value that is not a finite number (a division by zero, \<open>Math.max()\<close> of nothing, a read
  past the end of an array, \<open>Math.pow\<close> and \<open>Math.log\<close> outside their real domain):
  there the functions compute on \<open>jsnum\<close>. Zero is always the positive zero.
\<close>

subsection \<open>Numbers that may not be finite\<close>

datatype jsnum = Fin real | PosInf | NegInf | NaN

text \<open>Unary minus.\<close>

fun js_neg :: "jsnum \<Rightarrow> jsnum" where
  "js_neg (Fin a) = Fin (- a)"
| "js_neg PosInf = NegInf"
| "js_neg NegInf = PosInf"
| "js_neg NaN = NaN"

text \<open>The sign of a number that is not \<open>NaN\<close>, and the infinity of a sign (\<open>NaN\<close> for 0).\<close>

fun js_sign :: "jsnum \<Rightarrow> real" where
  "js_sign (Fin a) = sgn a"
| "js_sign PosInf = 1"
| "js_sign NegInf = - 1"
| "js_sign NaN = 0"

definition infOfSign :: "real \<Rightarrow> jsnum" where
  "infOfSign s = (if 0 < s then PosInf else if s < 0 then NegInf else NaN)"

text \<open>\<open>a + b\<close>: opposite infinities give \<open>NaN\<close>.\<close>

fun js_plus :: "jsnum \<Rightarrow> jsnum \<Rightarrow> jsnum" where
  "js_plus (Fin a) (Fin b) = Fin (a + b)"
| "js_plus NaN _ = NaN"
| "js_plus _ NaN = NaN"
| "js_plus PosInf NegInf = NaN"
| "js_plus NegInf PosInf = NaN"
| "js_plus PosInf _ = PosInf"
| "js_plus _ PosInf = PosInf"
| "js_plus NegInf _ = NegInf"
| "js_plus _ NegInf = NegInf"

definition js_minus :: "jsnum \<Rightarrow> jsnum \<Rightarrow> jsnum" where
  "js_minus a b = js_plus a (js_neg b)"

text \<open>\<open>a * b\<close>: zero times an infinity is \<open>NaN\<close>.\<close>

fun js_times :: "jsnum \<Rightarrow> jsnum \<Rightarrow> jsnum" where
  "js_times (Fin a) (Fin b) = Fin (a * b)"
| "js_times NaN _ = NaN"
| "js_times _ NaN = NaN"
| "js_times a b = infOfSign (js_sign a * js_sign b)"

text \<open>
  \<open>a / b\<close>: a finite number over zero is an infinity of its sign, \<open>0 / 0\<close> and an infinity
  over an infinity are \<open>NaN\<close>, a finite number over an infinity is 0.
\<close>

fun js_divide :: "jsnum \<Rightarrow> jsnum \<Rightarrow> jsnum" where
  "js_divide (Fin a) (Fin b) = (if b \<noteq> 0 then Fin (a / b) else infOfSign (sgn a))"
| "js_divide NaN _ = NaN"
| "js_divide _ NaN = NaN"
| "js_divide (Fin a) _ = Fin 0"
| "js_divide a (Fin b) = (if 0 \<le> b then a else js_neg a)"
| "js_divide _ _ = NaN"

text \<open>\<open>a < b\<close>: false as soon as one side is \<open>NaN\<close>.\<close>

fun js_less :: "jsnum \<Rightarrow> jsnum \<Rightarrow> bool" where
  "js_less (Fin a) (Fin b) = (a < b)"
| "js_less NaN _ = False"
| "js_less _ NaN = False"
| "js_less NegInf b = (b \<noteq> NegInf)"
| "js_less a PosInf = (a \<noteq> PosInf)"
| "js_less _ _ = False"

text \<open>\<open>Math.min(a, b)\<close> and \<open>Math.max(a, b)\<close>: \<open>NaN\<close> as soon as one argument is.\<close>

definition js_min :: "jsnum \<Rightarrow> jsnum \<Rightarrow> jsnum" where
  "js_min a b = (if a = NaN \<or> b = NaN then NaN else if js_less b a then b else a)"

definition js_max :: "jsnum \<Rightarrow> jsnum \<Rightarrow> jsnum" where
  "js_max a b = (if a = NaN \<or> b = NaN then NaN else if js_less a b then b else a)"

text \<open>\<open>Math.floor\<close> and \<open>Math.ceil\<close>.\<close>

fun js_floor :: "jsnum \<Rightarrow> jsnum" where
  "js_floor (Fin a) = Fin (of_int \<lfloor>a\<rfloor>)"
| "js_floor a = a"

fun js_ceil :: "jsnum \<Rightarrow> jsnum" where
  "js_ceil (Fin a) = Fin (of_int \<lceil>a\<rceil>)"
| "js_ceil a = a"

text \<open>
  \<open>Math.pow(base, exponent)\<close>, in the order of the language definition: a \<open>NaN\<close>
  exponent, a zero exponent, a \<open>NaN\<close> base, then the infinities, a zero base, and a
  negative base, which has a power only at an integer exponent.
\<close>

definition js_pow :: "jsnum \<Rightarrow> jsnum \<Rightarrow> jsnum" where
  "js_pow base exponent =
    (if exponent = NaN then NaN
     else if exponent = Fin 0 then Fin 1
     else if base = NaN then NaN
     else case base of
       PosInf \<Rightarrow> (if js_less (Fin 0) exponent then PosInf else Fin 0)
     | NegInf \<Rightarrow>
         (if js_less (Fin 0) exponent
          then (case exponent of
                  Fin e \<Rightarrow> (if e = of_int \<lfloor>e\<rfloor> \<and> odd \<lfloor>e\<rfloor> then NegInf else PosInf)
                | _ \<Rightarrow> PosInf)
          else Fin 0)
     | Fin b \<Rightarrow>
         (case exponent of
            PosInf \<Rightarrow> (if 1 < \<bar>b\<bar> then PosInf else if \<bar>b\<bar> = 1 then NaN else Fin 0)
          | NegInf \<Rightarrow> (if 1 < \<bar>b\<bar> then Fin 0 else if \<bar>b\<bar> = 1 then NaN else PosInf)
          | Fin e \<Rightarrow>
              (if 0 < b then Fin (b powr e)
               else if b = 0 then (if 0 < e then Fin 0 else PosInf)
               else if e = of_int \<lfloor>e\<rfloor> then Fin (b powi \<lfloor>e\<rfloor>)
               else NaN)
          | NaN \<Rightarrow> NaN)
     | NaN \<Rightarrow> NaN)"

text \<open>\<open>Math.log\<close>.\<close>

fun js_log :: "jsnum \<Rightarrow> jsnum" where
  "js_log (Fin a) = (if 0 < a then Fin (ln a) else if a = 0 then NegInf else NaN)"
| "js_log PosInf = PosInf"
| "js_log _ = NaN"

subsection \<open>Rounding to binary64\<close>

text \<open>
  Rounding to the nearest whole number, a tie going to the even one.
\<close>

definition round_even :: "real \<Rightarrow> int" where
  "round_even r =
    (let f = \<lfloor>r\<rfloor>
     in if r - of_int f < 1 / 2 then f
        else if 1 / 2 < r - of_int f then f + 1
        else if even f then f else f + 1)"

text \<open>
  The binade of a positive number \<open>x\<close> is the exponent \<open>e\<close> with
  \<open>2^e \<le> x < 2^(e+1)\<close>. It is found by stepping up from 0 when \<open>x \<ge> 1\<close> and down
  from -1 otherwise.
\<close>

function binade_up :: "real \<Rightarrow> int \<Rightarrow> int" where
  "binade_up x e = (if 2 powi (e + 1) \<le> x then binade_up x (e + 1) else e)"
  by pat_completeness auto
termination
proof (relation "measure (\<lambda>(x, e). nat (\<lfloor>log 2 x\<rfloor> - e))")
  show "wf (measure (\<lambda>(x, e). nat (\<lfloor>log 2 x\<rfloor> - e)))"
    by simp
next
  fix x :: real and e :: int
  assume le: "2 powi (e + 1) \<le> x"
  have "(0::real) < 2 powi (e + 1)" by (simp add: zero_less_power_int)
  then have pos: "0 < x" using le by linarith
  have "2 powr real_of_int (e + 1) = (2::real) powi (e + 1)"
    by (rule powr_real_of_int') simp_all
  then have "2 powr real_of_int (e + 1) \<le> x"
    using le by linarith
  then have "real_of_int (e + 1) \<le> log 2 x"
    using pos le_log_iff [of 2 x "real_of_int (e + 1)"] by simp
  then have "e + 1 \<le> \<lfloor>log 2 x\<rfloor>"
    using le_floor_iff [of "e + 1" "log 2 x"] by simp
  then show "((x, e + 1), (x, e)) \<in> measure (\<lambda>(x, e). nat (\<lfloor>log 2 x\<rfloor> - e))"
    by simp
qed

declare binade_up.simps [simp del]

function binade_down :: "real \<Rightarrow> int \<Rightarrow> int" where
  "binade_down x e = (if 0 < x \<and> x < 2 powi e then binade_down x (e - 1) else e)"
  by pat_completeness auto
termination
proof (relation "measure (\<lambda>(x, e). nat (e - \<lfloor>log 2 x\<rfloor>))")
  show "wf (measure (\<lambda>(x, e). nat (e - \<lfloor>log 2 x\<rfloor>)))"
    by simp
next
  fix x :: real and e :: int
  assume a: "0 < x \<and> x < 2 powi e"
  have "2 powr real_of_int e = (2::real) powi e"
    by (rule powr_real_of_int') simp_all
  then have "x < 2 powr real_of_int e"
    using a by linarith
  then have "log 2 x < real_of_int e"
    using a log_less_iff [of 2 x "real_of_int e"] by simp
  then have "\<lfloor>log 2 x\<rfloor> < e"
    using floor_less_iff [of "log 2 x" e] by simp
  then show "((x, e - 1), (x, e)) \<in> measure (\<lambda>(x, e). nat (e - \<lfloor>log 2 x\<rfloor>))"
    by simp
qed

declare binade_down.simps [simp del]

definition binade :: "real \<Rightarrow> int" where
  "binade x = (if 1 \<le> x then binade_up x 0 else binade_down x (- 1))"

text \<open>
  \<open>fl x\<close> is the double nearest to \<open>x\<close>, a tie going to the even significand: \<open>x\<close> is
  rounded to a whole number of units \<open>2^(e - 52)\<close>, where \<open>e\<close> is its binade, or -1022
  in the subnormal range. This is the result of a binary64 operation whose exact value
  is \<open>x\<close>, as long as it does not overflow.
\<close>

definition fl :: "real \<Rightarrow> real" where
  "fl x =
    (if x = 0 then 0
     else let e = max (binade \<bar>x\<bar>) (- 1022);
              u = 2 powi (e - 52)
          in sgn x * (of_int (round_even (\<bar>x\<bar> / u)) * u))"

text \<open>The rounding of a result that may not be finite.\<close>

fun js_round :: "jsnum \<Rightarrow> jsnum" where
  "js_round (Fin a) = Fin (fl a)"
| "js_round a = a"

subsection \<open>Reading arrays\<close>

text \<open>
  Reading a \<open>number[]\<close> at a position. Past the end the read gives \<open>undefined\<close>, which
  every arithmetic operation, and every store into a \<open>Float32Array\<close>, turns into \<open>NaN\<close>:
  the model gives \<open>NaN\<close> at once. \<open>js_index\<close> reads at a computed number, which may be
  negative, fractional or not finite.
\<close>

definition js_nth :: "real list \<Rightarrow> nat \<Rightarrow> jsnum" where
  "js_nth xs i = (if i < length xs then Fin (xs ! i) else NaN)"

definition js_index :: "real list \<Rightarrow> jsnum \<Rightarrow> jsnum" where
  "js_index xs i =
    (case i of
       Fin k \<Rightarrow> (if k = of_int \<lfloor>k\<rfloor> \<and> 0 \<le> k then js_nth xs (nat \<lfloor>k\<rfloor>) else NaN)
     | _ \<Rightarrow> NaN)"

text \<open>The same read in a typed array, whose elements may already be \<open>NaN\<close> or infinite.\<close>

definition f32_nth :: "jsnum list \<Rightarrow> nat \<Rightarrow> jsnum" where
  "f32_nth xs i = (if i < length xs then xs ! i else NaN)"

section \<open>Counting loops\<close>

text \<open>
  Three functions of the program build their result with the same loop,
  \<open>for (let i = 0; i < bound; i++) { ...; out.push(body(i)) }\<close>, where the body reads only
  \<open>i\<close> and the arguments. \<open>pushLoop\<close> is that loop from \<open>i\<close> on, with the elements pushed
  so far.
\<close>

function pushLoop :: "real \<Rightarrow> (nat \<Rightarrow> 'a) \<Rightarrow> nat \<Rightarrow> 'a list \<Rightarrow> 'a list" where
  "pushLoop bound body i acc =
    (if real i < bound then pushLoop bound body (i + 1) (acc @ [body i]) else acc)"
  by pat_completeness auto
termination
proof (relation "measure (\<lambda>(bound, body, i, acc). nat \<lceil>bound\<rceil> - i)")
  show "wf (measure (\<lambda>(bound :: real, body :: nat \<Rightarrow> 'a, i, acc :: 'a list). nat \<lceil>bound\<rceil> - i))"
    by simp
next
  fix bound :: real and body :: "nat \<Rightarrow> 'a" and i :: nat and acc :: "'a list"
  assume "real i < bound"
  then have "int i < \<lceil>bound\<rceil>"
    by (simp add: less_ceiling_iff)
  then have "i < nat \<lceil>bound\<rceil>"
    by linarith
  then show "((bound, body, i + 1, acc @ [body i]), (bound, body, i, acc))
             \<in> measure (\<lambda>(bound, body, i, acc). nat \<lceil>bound\<rceil> - i)"
    by simp
qed

declare pushLoop.simps [simp del]

text \<open>
  The same loop when the bound was computed and may not be finite: against \<open>NaN\<close> or
  \<open>-Infinity\<close> the test fails at once, against \<open>Infinity\<close> it never fails and the loop
  does not return (\<open>None\<close>).
\<close>

definition pushLoopJs :: "jsnum \<Rightarrow> (nat \<Rightarrow> 'a) \<Rightarrow> 'a list option" where
  "pushLoopJs bound body =
    (case bound of
       Fin b \<Rightarrow> Some (pushLoop b body 0 [])
     | PosInf \<Rightarrow> None
     | NegInf \<Rightarrow> Some []
     | NaN \<Rightarrow> Some [])"

section \<open>DeepEngravingService\<close>

text \<open>
  The settings object of \<open>DeepEngravingService.ts\<close>. Field names that would clash with
  constants of HOL (\<open>max\<close>, \<open>min\<close>, \<open>power\<close>) or with a field of another record carry a
  prefix: \<open>pr_\<close> for \<open>powerRamp\<close>, \<open>sp_\<close> for \<open>speedProfile\<close>, \<open>pass_\<close> for the fields of a
  pass.
\<close>

record PowerRamp =
  pr_initial :: real
  pr_increment :: real
  pr_max :: real

record SpeedProfile =
  sp_initial :: real
  sp_reduction :: real
  sp_min :: real

record BeamProfile =
  focusOffset :: real
  beamOverlap :: real
  crosshatchAngle :: real

record VisualEffects =
  showLaserTrail :: bool
  trailColor :: string
  trailIntensity :: real
  pulseEffect :: bool

record DeepEngravingSettings =
  maxDepth :: real
  passLayers :: real
  powerRamp :: PowerRamp
  speedProfile :: SpeedProfile
  beamProfile :: BeamProfile
  visualEffects :: VisualEffects

text \<open>\<open>ImageData\<close>: the dimensions and the RGBA bytes of a \<open>Uint8ClampedArray\<close>.\<close>

record ImageData =
  width :: nat
  height :: nat
  data :: "8 word list"

record PathPoint =
  pt_x :: real
  pt_y :: real
  pt_z :: real
  pt_power :: real

record Pass =
  pass_paths :: "PathPoint list"
  pass_depth :: real
  pass_power :: real
  pass_speed :: real
  pass_focusOffset :: real

text \<open>The value \<open>generateDeepEngraving\<close> resolves to, without the \<open>THREE.Group\<close> preview.\<close>

record DeepEngraving =
  passes :: "Pass list"
  totalTime :: real
  de_maxDepth :: real

text \<open>
  Four private helpers of the service are stubs in the source: each allocates an empty
  array, or zero, and returns it. \<open>calculateFocusOffset\<close> is written out.
\<close>

definition deep_generateEnhancedDepthMap :: "ImageData \<Rightarrow> real list list" where
  "deep_generateEnhancedDepthMap img = []"

definition generateLayerPaths ::
  "real list list \<Rightarrow> real \<Rightarrow> real \<Rightarrow> DeepEngravingSettings \<Rightarrow> PathPoint list" where
  "generateLayerPaths depthMap depth pw settings = []"

definition generateCrosshatchPaths ::
  "real list list \<Rightarrow> real \<Rightarrow> real \<Rightarrow> DeepEngravingSettings \<Rightarrow> PathPoint list" where
  "generateCrosshatchPaths depthMap depth pw settings = []"

definition calculateFocusOffset :: "real \<Rightarrow> DeepEngravingSettings \<Rightarrow> real" where
  "calculateFocusOffset depth settings = depth * focusOffset (beamProfile settings)"

definition calculateTotalTime :: "Pass list \<Rightarrow> real" where
  "calculateTotalTime ps = 0"

text \<open>
  The pass that the body of the \<open>for\<close> loop pushes at one value of \<open>layer\<close>. The loop
  runs it only while \<open>layer < passLayers\<close>, so \<open>passLayers\<close> is positive in the division.
  The depth is computed in binary64: the quotient is rounded, then its product with
  \<open>layer + 1\<close>.
\<close>

definition layerPass :: "real list list \<Rightarrow> DeepEngravingSettings \<Rightarrow> nat \<Rightarrow> Pass" where
  "layerPass depthMap settings layer =
    (let currentDepth = fl ((real layer + 1) * fl (maxDepth settings / passLayers settings));
         layerPower = min (pr_initial (powerRamp settings)
                            + pr_increment (powerRamp settings) * real layer)
                          (pr_max (powerRamp settings));
         speedReduction = sp_reduction (speedProfile settings) ^ layer;
         currentSpeed = max (sp_initial (speedProfile settings) * speedReduction)
                            (sp_min (speedProfile settings));
         layerPaths = generateLayerPaths depthMap currentDepth layerPower settings;
         layerPaths = (if real layer > passLayers settings / 2
                       then layerPaths
                              @ generateCrosshatchPaths depthMap currentDepth layerPower settings
                       else layerPaths)
     in \<lparr> pass_paths = layerPaths,
          pass_depth = currentDepth,
          pass_power = layerPower,
          pass_speed = currentSpeed,
          pass_focusOffset = calculateFocusOffset currentDepth settings \<rparr>)"

definition generateDeepEngraving :: "ImageData \<Rightarrow> DeepEngravingSettings \<Rightarrow> DeepEngraving" where
  "generateDeepEngraving img settings =
    (let depthMap = deep_generateEnhancedDepthMap img;
         ps = pushLoop (passLayers settings) (layerPass depthMap settings) 0 []
     in \<lparr> passes = ps,
          totalTime = calculateTotalTime ps,
          de_maxDepth = maxDepth settings \<rparr>)"

section \<open>DepthMapService\<close>

datatype DepthCurve = Linear | Exponential | Logarithmic | Custom

text \<open>
  \<open>DepthMapSettings\<close> of the depth map service. \<open>customCurve\<close> is optional in the source;
  \<open>maxDepth\<close> carries the prefix \<open>dm_\<close>.
\<close>

record DepthMapSettings =
  contrast :: real
  brightness :: real
  gamma :: real
  sharpness :: real
  baseDepth :: real
  dm_maxDepth :: real
  minDepth :: real
  depthCurve :: DepthCurve
  customCurve :: "real list option"
  layers :: real
  layerBlending :: real
  layerContrast :: "real list"
  detailBoost :: real
  microDetail :: real
  edgeEnhancement :: real
  smoothing :: real
  adaptiveSmoothing :: bool
  preserveEdges :: bool
  normalStrength :: real
  aoStrength :: real
  heightBlending :: real

definition applyContrastBrightness :: "jsnum \<Rightarrow> real \<Rightarrow> real \<Rightarrow> jsnum" where
  "applyContrastBrightness v c b =
    (let v = js_plus (Fin 0.5) (js_times (js_minus v (Fin 0.5)) (Fin (1 + c / 100)));
         v = js_plus v (Fin (b / 100))
     in js_max (Fin 0) (js_min (Fin 1) v))"

text \<open>One byte of the pixel buffer, as a number; past the end of the buffer, \<open>NaN\<close>.\<close>

definition byteAt :: "8 word list \<Rightarrow> nat \<Rightarrow> jsnum" where
  "byteAt d k = (if k < length d then Fin (real (unat (d ! k))) else NaN)"

text \<open>
  \<open>convertToEnhancedGrayscale\<close> fills \<open>grayscale[i]\<close> for every \<open>i < width * height\<close>;
  the list holds the elements in index order.
\<close>

definition convertToEnhancedGrayscale :: "ImageData \<Rightarrow> DepthMapSettings \<Rightarrow> jsnum list" where
  "convertToEnhancedGrayscale img settings =
    map (\<lambda>i.
          let r = js_divide (byteAt (data img) (i * 4)) (Fin 255);
              g = js_divide (byteAt (data img) (i * 4 + 1)) (Fin 255);
              b = js_divide (byteAt (data img) (i * 4 + 2)) (Fin 255);
              gray = js_pow (js_plus (js_plus (js_times (Fin 0.299) r) (js_times (Fin 0.587) g))
                                     (js_times (Fin 0.114) b))
                            (js_divide (Fin 1) (Fin (gamma settings)))
          in applyContrastBrightness gray (contrast settings) (brightness settings))
        [0 ..< width img * height img]"

text \<open>
  The \<open>while\<close> loop of \<open>interpolateCustomCurve\<close>, from \<open>i\<close> on: the first position whose
  control point is not below the value.
\<close>

function curveIndex :: "real list \<Rightarrow> jsnum \<Rightarrow> nat \<Rightarrow> nat" where
  "curveIndex curve v i =
    (if i < length curve \<and> js_less (Fin (curve ! i)) v then curveIndex curve v (i + 1) else i)"
  by pat_completeness auto
termination
  by (relation "measure (\<lambda>(curve, v, i). length curve - i)") auto

declare curveIndex.simps [simp del]

text \<open>
  Between two control points the interpolation is computed in binary64: each difference,
  the quotient, the product and the sum are rounded.
\<close>

definition interpolateCustomCurve :: "jsnum \<Rightarrow> real list \<Rightarrow> jsnum" where
  "interpolateCustomCurve v curve =
    (let i = curveIndex curve v 0
     in if i = 0 then js_nth curve 0
        else if i = length curve then js_nth curve (length curve - 1)
        else let t = js_round (js_divide
                       (js_round (js_minus v (js_nth curve (i - 1))))
                       (js_round (js_minus (js_nth curve i) (js_nth curve (i - 1)))))
             in js_round (js_plus (js_nth curve (i - 1))
                  (js_round (js_times t
                     (js_round (js_minus (js_nth curve i) (js_nth curve (i - 1))))))))"

text \<open>
  An array is truthy even when it is empty, so the test \<open>settings.customCurve ? ... : value\<close>
  takes its second branch only when the field is unset.
\<close>

definition applyDepthCurve :: "jsnum \<Rightarrow> DepthMapSettings \<Rightarrow> jsnum" where
  "applyDepthCurve v settings =
    (case depthCurve settings of
       Exponential \<Rightarrow> js_pow v (Fin 2)
     | Logarithmic \<Rightarrow> js_log (js_plus (js_times v (Fin (exp 1 - 1))) (Fin 1))
     | Custom \<Rightarrow>
         (case customCurve settings of
            Some curve \<Rightarrow> interpolateCustomCurve v curve
          | None \<Rightarrow> v)
     | Linear \<Rightarrow> v)"

definition enhanceLocalContrast :: "jsnum \<Rightarrow> DepthMapSettings \<Rightarrow> jsnum" where
  "enhanceLocalContrast v settings =
    (let c = contrast settings / 100;
         v = js_plus (Fin 0.5) (js_times (js_minus v (Fin 0.5)) (Fin (1 + c)));
         v = (if js_less v (Fin 0) then Fin 0 else v);
         v = (if js_less (Fin 1) v then Fin 1 else v)
     in v)"

text \<open>
  \<open>processPixelAtScale\<close>: the samples of the \<open>scale\<close> by \<open>scale\<close> window that lie inside
  the image, in the order the two loops visit them, then their mean, the depth curve and
  the contrast step.
\<close>

definition processPixelAtScale ::
  "jsnum list \<Rightarrow> nat \<Rightarrow> nat \<Rightarrow> nat \<Rightarrow> nat \<Rightarrow> nat \<Rightarrow> DepthMapSettings \<Rightarrow> jsnum" where
  "processPixelAtScale grayscale x y scale w h settings =
    (let samples = concat (map (\<lambda>dy. concat (map (\<lambda>dx.
                       let sx = x * scale + dx; sy = y * scale + dy
                       in if sx < w \<and> sy < h then [f32_nth grayscale (sy * w + sx)] else [])
                     [0 ..< scale])) [0 ..< scale]);
         total = foldl js_plus (Fin 0) samples;
         v = js_divide total (Fin (real (length samples)));
         v = applyDepthCurve v settings;
         v = enhanceLocalContrast v settings
     in v)"

text \<open>
  \<open>gaussianBlur\<close> has an empty body in the source: it leaves its output buffer as it got
  it. The model returns that buffer.
\<close>

definition gaussianBlur :: "jsnum list \<Rightarrow> jsnum list \<Rightarrow> nat \<Rightarrow> nat \<Rightarrow> real \<Rightarrow> jsnum list" where
  "gaussianBlur input output w h sigma = output"

text \<open>
  \<open>enhanceDetails\<close> updates its buffer in place; the model returns the updated buffer.
  \<open>temp\<close> is a fresh \<open>Float32Array\<close>, all zero.
\<close>

definition enhanceDetails :: "jsnum list \<Rightarrow> nat \<Rightarrow> nat \<Rightarrow> DepthMapSettings \<Rightarrow> jsnum list" where
  "enhanceDetails buf w h settings =
    (let temp = replicate (length buf) (Fin 0);
         radius = max 1 (real_of_int \<lfloor>real w * 0.02\<rfloor>);
         sigma = radius / 3;
         amount = detailBoost settings / 100;
         temp = gaussianBlur buf temp w h sigma
     in map (\<lambda>i. let difference = js_minus (f32_nth buf i) (f32_nth temp i)
                 in js_plus (f32_nth buf i) (js_times difference (Fin amount)))
            [0 ..< length buf])"

text \<open>
  \<open>processAtScale\<close>, for a scale of at least 1 (the caller passes 1, 2, 4 and 8): the
  scaled buffer in row order, then the detail step.
\<close>

definition processAtScale ::
  "jsnum list \<Rightarrow> nat \<Rightarrow> nat \<Rightarrow> nat \<Rightarrow> DepthMapSettings \<Rightarrow> jsnum list" where
  "processAtScale grayscale w h scale settings =
    (let scaledWidth = w div scale;
         scaledHeight = h div scale;
         processed = concat (map (\<lambda>y. map (\<lambda>x.
                         processPixelAtScale grayscale x y scale w h settings)
                       [0 ..< scaledWidth]) [0 ..< scaledHeight])
     in enhanceDetails processed scaledWidth scaledHeight settings)"

text \<open>
  The first half of \<open>generateEnhancedDepthMap\<close>: the grayscale buffer and the four
  processed scales, the value of \<open>processedScales\<close>. The method then calls
  \<open>blendProcessedScales\<close>, which the class does not define, and three helpers whose bodies
  are empty.
\<close>

definition processedScales :: "ImageData \<Rightarrow> DepthMapSettings \<Rightarrow> jsnum list list" where
  "processedScales img settings =
    (let grayscale = convertToEnhancedGrayscale img settings
     in map (\<lambda>scale. processAtScale grayscale (width img) (height img) scale settings)
            [1, 2, 4, 8])"

section \<open>LaserEngravingService\<close>

text \<open>
  The engraving service declares a \<open>DepthMapSettings\<close> of its own, with other fields; its
  fields carry the prefix \<open>le_\<close>.
\<close>

record HeightmapSettings =
  le_baseDepth :: real
  le_maxDepth :: real
  le_minDepth :: real
  le_contrast :: real
  le_brightness :: real
  le_gamma :: real
  le_sharpness :: real
  le_smoothing :: real
  le_levels :: real
  le_invert :: bool
  le_curve :: DepthCurve
  le_customCurve :: "real list option"

text \<open>Here the interpolation is a stub that returns its argument.\<close>

definition le_interpolateCustomCurve :: "jsnum \<Rightarrow> real list \<Rightarrow> jsnum" where
  "le_interpolateCustomCurve depth curve = depth"

definition le_applyDepthCurve :: "jsnum \<Rightarrow> HeightmapSettings \<Rightarrow> jsnum" where
  "le_applyDepthCurve depth settings =
    (case le_curve settings of
       Exponential \<Rightarrow> js_pow depth (Fin 2)
     | Logarithmic \<Rightarrow> js_log (js_plus (js_times depth (Fin (exp 1 - 1))) (Fin 1))
     | Custom \<Rightarrow>
         (case le_customCurve settings of
            Some curve \<Rightarrow> le_interpolateCustomCurve depth curve
          | None \<Rightarrow> depth)
     | Linear \<Rightarrow> depth)"

datatype Strategy = Contour | Spiral | Hybrid | Adaptive

datatype Direction = Bidirectional | Unidirectional

datatype OptimizationLevel = Speed | Quality | Balanced

record ToolpathSettings =
  strategy :: Strategy
  direction :: Direction
  lineSpacing :: real
  angle :: real
  stepover :: real
  toolCompensation :: real
  smoothingFactor :: real
  optimizationLevel :: OptimizationLevel
  crosshatch :: bool
  tp_crosshatchAngle :: real
  depthPerPass :: real
  maxPasses :: real

record Toolpath =
  tp_path :: "PathPoint list"
  tp_pass :: real
  tp_depth :: real

text \<open>The path generators are stubs: each returns an empty array.\<close>

definition generateContourPath :: "real list list \<Rightarrow> real \<Rightarrow> ToolpathSettings \<Rightarrow> PathPoint list" where
  "generateContourPath heightmap depth settings = []"

definition generateSpiralPath :: "real list list \<Rightarrow> real \<Rightarrow> ToolpathSettings \<Rightarrow> PathPoint list" where
  "generateSpiralPath heightmap depth settings = []"

definition generateHybridPath :: "real list list \<Rightarrow> real \<Rightarrow> ToolpathSettings \<Rightarrow> PathPoint list" where
  "generateHybridPath heightmap depth settings = []"

definition generateAdaptivePath :: "real list list \<Rightarrow> real \<Rightarrow> ToolpathSettings \<Rightarrow> PathPoint list" where
  "generateAdaptivePath heightmap depth settings = []"

definition optimizePath :: "PathPoint list \<Rightarrow> ToolpathSettings \<Rightarrow> PathPoint list" where
  "optimizePath path settings = path"

definition generateCrosshatchPath :: "real list list \<Rightarrow> real \<Rightarrow> ToolpathSettings \<Rightarrow> PathPoint list" where
  "generateCrosshatchPath heightmap depth settings = []"

definition mergePaths :: "PathPoint list \<Rightarrow> PathPoint list \<Rightarrow> PathPoint list" where
  "mergePaths path1 path2 = path1 @ path2"

text \<open>\<open>Math.max(...xs)\<close>: \<open>-Infinity\<close> when there is no argument.\<close>

definition Math_max :: "real list \<Rightarrow> jsnum" where
  "Math_max xs = foldl js_max NegInf (map Fin xs)"

text \<open>The toolpath that the body of the loop pushes at one value of \<open>pass\<close>.\<close>

definition toolpathPass :: "real list list \<Rightarrow> ToolpathSettings \<Rightarrow> nat \<Rightarrow> Toolpath" where
  "toolpathPass heightmap settings pass =
    (let currentDepth = (real pass + 1) * depthPerPass settings;
         path = (case strategy settings of
                   Contour \<Rightarrow> generateContourPath heightmap currentDepth settings
                 | Spiral \<Rightarrow> generateSpiralPath heightmap currentDepth settings
                 | Hybrid \<Rightarrow> generateHybridPath heightmap currentDepth settings
                 | Adaptive \<Rightarrow> generateAdaptivePath heightmap currentDepth settings);
         path = optimizePath path settings;
         path = (if crosshatch settings
                 then mergePaths path (generateCrosshatchPath heightmap currentDepth settings)
                 else path)
     in \<lparr> tp_path = path, tp_pass = real pass + 1, tp_depth = currentDepth \<rparr>)"

text \<open>
  \<open>generateOptimizedToolpaths\<close>. The pass count is computed from the map and may not be
  finite; \<open>None\<close> is the call that never returns.
\<close>

definition passCount :: "real list list \<Rightarrow> ToolpathSettings \<Rightarrow> jsnum" where
  "passCount heightmap settings =
    (let totalDepth = js_times (Math_max (concat heightmap)) (Fin (maxPasses settings))
     in js_ceil (js_divide totalDepth (Fin (depthPerPass settings))))"

definition generateOptimizedToolpaths ::
  "real list list \<Rightarrow> ToolpathSettings \<Rightarrow> Toolpath list option" where
  "generateOptimizedToolpaths heightmap settings =
    pushLoopJs (passCount heightmap settings) (toolpathPass heightmap settings)"

section \<open>LaserProfileService\<close>

datatype LaserType = Fiber | CO2 | Diode

datatype GasType = Air | Nitrogen | Oxygen

record AssistGas =
  gas_type :: GasType
  gas_pressure :: real

record MopaSettings =
  pulseShapes :: "string list"
  burstMode :: bool
  burstSpacing :: real

record LaserSettings =
  powerCurve :: "real list"
  speedCurve :: "real list"
  pulseFrequency :: real
  pulseWidth :: real
  assistGas :: "AssistGas option"
  mopaSettings :: "MopaSettings option"

text \<open>The fields of a laser profile carry the prefix \<open>lp_\<close>, those of a material \<open>mp_\<close>.\<close>

record LaserProfile =
  lp_name :: string
  lp_type :: LaserType
  lp_power :: real
  lp_wavelength :: real
  lp_minPower :: real
  lp_maxPower :: real
  lp_focusHeight :: real
  lp_beamDiameter :: real
  lp_settings :: LaserSettings

record MaterialSettings =
  ms_power :: real
  ms_speed :: real
  ms_passes :: real
  ms_zOffset :: real
  ms_assistGas :: "AssistGas option"

record MaterialProfile =
  mp_name :: string
  mp_type :: string
  mp_thickness :: real
  mp_settings :: MaterialSettings

text \<open>
  The two lookup curves every profile of the catalogue is built with:
  \<open>Array.from({ length: 256 }, (_, i) => i / 255)\<close> and the same with the square.
\<close>

definition linearCurve :: "real list" where
  "linearCurve = map (\<lambda>i. real i / 255) [0 ..< 256]"

definition squareCurve :: "real list" where
  "squareCurve = map (\<lambda>i. (real i / 255) ^ 2) [0 ..< 256]"

definition fiberProfile ::
  "string \<Rightarrow> real \<Rightarrow> real \<Rightarrow> real \<Rightarrow> real \<Rightarrow> real \<Rightarrow> MopaSettings option \<Rightarrow> LaserProfile" where
  "fiberProfile n watts focus freq pwidth pressure mopa =
    \<lparr> lp_name = n, lp_type = Fiber, lp_power = watts, lp_wavelength = 1064,
      lp_minPower = 1, lp_maxPower = watts, lp_focusHeight = focus, lp_beamDiameter = 0.05,
      lp_settings = \<lparr> powerCurve = linearCurve, speedCurve = squareCurve,
                      pulseFrequency = freq, pulseWidth = pwidth,
                      assistGas = Some \<lparr> gas_type = Nitrogen, gas_pressure = pressure \<rparr>,
                      mopaSettings = mopa \<rparr> \<rparr>"

definition mopaShapes :: MopaSettings where
  "mopaShapes = \<lparr> pulseShapes = [''0-25ns'', ''0-50ns'', ''0-200ns'', ''0-500ns''],
                  burstMode = True, burstSpacing = 0.001 \<rparr>"

definition defaultProfiles :: "LaserProfile list" where
  "defaultProfiles =
    [ fiberProfile ''Seamann 50W Fiber'' 50 0.12 20000 0.05 8 None,
      fiberProfile ''Raycus 100W Fiber'' 100 0.15 30000 0.04 10 None,
      fiberProfile ''JPT 70W MOPA'' 70 0.15 50000 0.02 10 (Some mopaShapes),
      fiberProfile ''MaxPhotonics 120W MOPA'' 120 0.18 60000 0.02 12 (Some mopaShapes),
      fiberProfile ''IPG 150W Fiber'' 150 0.2 50000 0.03 15 None,
      fiberProfile ''nLight 200W Fiber'' 200 0.25 70000 0.02 18 None ]"

text \<open>The two private maps of the service, and its constructor.\<close>

record LaserProfileService =
  profiles :: "string \<rightharpoonup> LaserProfile"
  materialProfiles :: "string \<rightharpoonup> MaterialProfile list"

definition new_LaserProfileService :: LaserProfileService where
  "new_LaserProfileService =
    \<lparr> profiles = fold (\<lambda>profile m. m(lp_name profile \<mapsto> profile)) defaultProfiles Map.empty,
      materialProfiles = Map.empty \<rparr>"

definition getProfile :: "LaserProfileService \<Rightarrow> string \<Rightarrow> LaserProfile option" where
  "getProfile service n = profiles service n"

text \<open>The options of \<open>calculatePowerForGrayscale\<close>, with the prefix \<open>po_\<close>.\<close>

record PowerOptions =
  po_contrast :: real
  po_brightness :: real
  po_gamma :: real
  po_minPower :: real
  po_maxPower :: real

definition calculatePowerForGrayscale :: "LaserProfile \<Rightarrow> real \<Rightarrow> PowerOptions \<Rightarrow> jsnum" where
  "calculatePowerForGrayscale profile grayscaleValue options =
    (let adjusted = Fin grayscaleValue;
         adjusted = js_pow adjusted (js_divide (Fin 1) (Fin (po_gamma options)));
         adjusted = js_plus (js_times adjusted (Fin (po_contrast options)))
                            (Fin (po_brightness options));
         adjusted = js_max (Fin 0) (js_min (Fin 1) adjusted);
         powerIndex = js_floor (js_times adjusted
                        (Fin (real (length (powerCurve (lp_settings profile))) - 1)));
         powerPercentage = js_index (powerCurve (lp_settings profile)) powerIndex
     in js_plus (Fin (po_minPower options))
                (js_times (Fin (po_maxPower options - po_minPower options)) powerPercentage))"

text \<open>The options of \<open>generatePowerMap\<close>, with the prefix \<open>pm_\<close>, and one of its passes.\<close>

record PowerMapOptions =
  pm_maxDepth :: real
  pm_passes :: real
  pm_baseSpeed :: real
  pm_depthPerPass :: real
  pm_powerAdjustment :: real

record PowerPass =
  passNumber :: real
  powerMap :: "jsnum list list"
  pw_speed :: real
  zOffset :: real

definition powerMapPass :: "real list list \<Rightarrow> LaserProfile \<Rightarrow> PowerMapOptions \<Rightarrow> nat \<Rightarrow> PowerPass" where
  "powerMapPass heightmap profile options pass =
    (let targetDepth = (real pass + 1) * pm_depthPerPass options;
         rows = map (\<lambda>row. map (\<lambda>heightValue.
                   let requiredDepth = heightValue * pm_maxDepth options
                   in if requiredDepth > targetDepth - pm_depthPerPass options
                      then let powerPercentage =
                                 js_min (Fin 1)
                                   (js_divide
                                     (Fin (requiredDepth - (targetDepth - pm_depthPerPass options)))
                                     (Fin (pm_depthPerPass options)))
                           in js_times (js_times powerPercentage (Fin (lp_maxPower profile)))
                                       (Fin (pm_powerAdjustment options))
                      else Fin 0) row) heightmap
     in \<lparr> passNumber = real pass + 1,
          powerMap = rows,
          pw_speed = pm_baseSpeed options * 0.9 ^ pass,
          zOffset = - targetDepth \<rparr>)"

definition actualPasses :: "PowerMapOptions \<Rightarrow> jsnum" where
  "actualPasses options =
    (let maxPasses = js_ceil (js_divide (Fin (pm_maxDepth options)) (Fin (pm_depthPerPass options)))
     in js_min maxPasses (Fin (pm_passes options)))"

definition generatePowerMap ::
  "real list list \<Rightarrow> LaserProfile \<Rightarrow> PowerMapOptions \<Rightarrow> PowerPass list option" where
  "generatePowerMap heightmap profile options =
    pushLoopJs (actualPasses options) (powerMapPass heightmap profile options)"

record Material =
  refractiveIndex :: real
  thickness :: real

definition calculateFocalAdjustment :: "real \<Rightarrow> Material \<Rightarrow> jsnum" where
  "calculateFocalAdjustment depth material =
    (let focalShift = js_times (Fin depth)
                        (js_minus (Fin 1) (js_divide (Fin 1) (Fin (refractiveIndex material))))
     in focalShift)"

section \<open>ProfileManagerService\<close>

text \<open>A parsed JSON document; an object is the list of its fields, one entry for each key.\<close>

datatype json =
    JNull
  | JBool bool
  | JNum real
  | JStr string
  | JArr "json list"
  | JObj "(string \<times> json) list"

datatype PrinterType = SLA | FDM | DLP | MSLA

record BuildVolume =
  vol_x :: real
  vol_y :: real
  vol_z :: real

record Resolution =
  res_xy :: real
  res_z :: real

text \<open>The fields of a printer profile carry the prefix \<open>pp_\<close>.\<close>

record PrinterProfile =
  pp_name :: string
  pp_type :: PrinterType
  pp_manufacturer :: string
  pp_buildVolume :: BuildVolume
  pp_resolution :: Resolution
  pp_settings :: "(string \<times> json) list"

text \<open>
  The three private maps of the manager; \<open>mgr_materialProfiles\<close> is its
  \<open>materialProfiles\<close>.
\<close>

record ProfileManagerService =
  printerProfiles :: "string \<rightharpoonup> PrinterProfile"
  laserProfiles :: "string \<rightharpoonup> LaserProfile"
  mgr_materialProfiles :: "string \<rightharpoonup> MaterialProfile list"

definition addPrinterProfile :: "PrinterProfile \<Rightarrow> ProfileManagerService \<Rightarrow> ProfileManagerService" where
  "addPrinterProfile profile s = s\<lparr>printerProfiles := (printerProfiles s)(pp_name profile \<mapsto> profile)\<rparr>"

definition addLaserProfile :: "LaserProfile \<Rightarrow> ProfileManagerService \<Rightarrow> ProfileManagerService" where
  "addLaserProfile profile s = s\<lparr>laserProfiles := (laserProfiles s)(lp_name profile \<mapsto> profile)\<rparr>"

definition addMaterialProfile :: "MaterialProfile \<Rightarrow> ProfileManagerService \<Rightarrow> ProfileManagerService" where
  "addMaterialProfile profile s =
    (let existingProfiles = (case mgr_materialProfiles s (mp_type profile) of
                               Some ps \<Rightarrow> ps
                             | None \<Rightarrow> [])
     in s\<lparr>mgr_materialProfiles :=
            (mgr_materialProfiles s)(mp_type profile \<mapsto> existingProfiles @ [profile])\<rparr>)"

definition getPrinterProfile :: "ProfileManagerService \<Rightarrow> string \<Rightarrow> PrinterProfile option" where
  "getPrinterProfile s n = printerProfiles s n"


definition getMaterialProfiles :: "ProfileManagerService \<Rightarrow> string \<Rightarrow> MaterialProfile list" where
  "getMaterialProfiles s t = (case mgr_materialProfiles s t of Some ps \<Rightarrow> ps | None \<Rightarrow> [])"

definition msla :: "string \<Rightarrow> string \<Rightarrow> BuildVolume \<Rightarrow> Resolution \<Rightarrow> (string \<times> json) list \<Rightarrow> PrinterProfile" where
  "msla n maker volume res settings =
    \<lparr> pp_name = n, pp_type = MSLA, pp_manufacturer = maker, pp_buildVolume = volume,
      pp_resolution = res, pp_settings = settings \<rparr>"

definition initializeDefaultProfiles :: "ProfileManagerService \<Rightarrow> ProfileManagerService" where
  "initializeDefaultProfiles s =
    (let s = addPrinterProfile
               (msla ''Anycubic Photon Mono X 6K'' ''Anycubic''
                  \<lparr> vol_x = 197, vol_y = 122, vol_z = 245 \<rparr> \<lparr> res_xy = 0.034, res_z = 0.01 \<rparr>
                  [ (''screenResolution'', JObj [(''x'', JNum 5760), (''y'', JNum 3600)]),
                    (''lightSource'', JStr ''Mono LCD''), (''wavelength'', JNum 405),
                    (''normalExposure'', JNum 2.5), (''baseExposure'', JNum 30),
                    (''baseLayers'', JNum 6), (''liftDistance'', JNum 6),
                    (''liftSpeed'', JNum 180), (''retractSpeed'', JNum 240),
                    (''antiAliasing'', JNum 4) ]) s;
         s = addPrinterProfile
               (msla ''Phrozen Sonic Mini 8K'' ''Phrozen''
                  \<lparr> vol_x = 165, vol_y = 72, vol_z = 180 \<rparr> \<lparr> res_xy = 0.022, res_z = 0.01 \<rparr>
                  [ (''screenResolution'', JObj [(''x'', JNum 7500), (''y'', JNum 3240)]),
                    (''lightSource'', JStr ''Mono LCD''), (''wavelength'', JNum 405),
                    (''normalExposure'', JNum 2.2), (''baseExposure'', JNum 35),
                    (''baseLayers'', JNum 5), (''liftDistance'', JNum 5),
                    (''liftSpeed'', JNum 150), (''retractSpeed'', JNum 200),
                    (''antiAliasing'', JNum 8) ]) s;
         s = addLaserProfile (fiberProfile ''Raycus 50W Fiber'' 50 0.12 30000 0.04 8 None) s;
         s = addLaserProfile (fiberProfile ''JPT 70W MOPA'' 70 0.15 50000 0.02 10 (Some mopaShapes)) s
     in s)"

text \<open>The private constructor: three empty maps, then the default profiles.\<close>

definition new_ProfileManagerService :: ProfileManagerService where
  "new_ProfileManagerService =
    initializeDefaultProfiles
      \<lparr> printerProfiles = Map.empty, laserProfiles = Map.empty,
        mgr_materialProfiles = Map.empty \<rparr>"

text \<open>The exceptions a step of \<open>importProfile\<close> can raise.\<close>

datatype js_error = SyntaxError | TypeError

text \<open>
  Reading one of the properties \<open>type\<close>, \<open>profile\<close> and \<open>name\<close> of a parsed value:
  on \<open>null\<close> the read raises a \<open>TypeError\<close>; on an object it gives the field, or
  \<open>undefined\<close> (\<open>None\<close>); a boolean, a number, a string and an array have none of the
  three properties.
\<close>

fun getProp :: "json \<Rightarrow> string \<Rightarrow> js_error + json option" where
  "getProp JNull k = Inl TypeError"
| "getProp (JObj fs) k = Inr (map_of fs k)"
| "getProp _ k = Inr None"

text \<open>
  \<open>importProfile\<close> hands \<open>data.profile\<close>, of type \<open>any\<close>, to one of the three \<open>add\<close>
  methods without a check. The method first reads \<open>profile.name\<close> (\<open>profile.type\<close> for
  a material), which raises a \<open>TypeError\<close> when the payload is \<open>undefined\<close> or \<open>null\<close>.
  Any other payload is stored; the model reads it at the method's parameter type through
  \<open>decode\<close>, a parameter of the model.
\<close>

definition addPayload ::
  "(json \<Rightarrow> 'p) \<Rightarrow> ('p \<Rightarrow> ProfileManagerService \<Rightarrow> ProfileManagerService)
     \<Rightarrow> json option \<Rightarrow> ProfileManagerService \<Rightarrow> js_error + ProfileManagerService" where
  "addPayload decode add payload s =
    (case payload of
       None \<Rightarrow> Inl TypeError
     | Some JNull \<Rightarrow> Inl TypeError
     | Some j \<Rightarrow> Inr (add (decode j) s))"

text \<open>
  The decoders of the three payloads, and \<open>JSON.parse\<close>, which is not code of the
  repository: \<open>parse\<close> gives the parsed value, or the \<open>SyntaxError\<close> it raises.
\<close>

record Decoders =
  parse :: "string \<Rightarrow> js_error + json"
  asPrinter :: "json \<Rightarrow> PrinterProfile"
  asLaser :: "json \<Rightarrow> LaserProfile"
  asMaterial :: "json \<Rightarrow> MaterialProfile"

text \<open>The body of the \<open>try\<close> block: \<open>Inl\<close> is the exception it raises.\<close>

definition importTry ::
  "Decoders \<Rightarrow> string \<Rightarrow> ProfileManagerService \<Rightarrow> js_error + ProfileManagerService" where
  "importTry env profileData s =
    (case parse env profileData of
       Inl e \<Rightarrow> Inl e
     | Inr d \<Rightarrow>
        (case getProp d ''type'' of
           Inl e \<Rightarrow> Inl e
         | Inr ty \<Rightarrow>
            if ty = Some (JStr ''printer'')
            then (case getProp d ''profile'' of
                    Inl e \<Rightarrow> Inl e
                  | Inr p \<Rightarrow> addPayload (asPrinter env) addPrinterProfile p s)
            else if ty = Some (JStr ''laser'')
            then (case getProp d ''profile'' of
                    Inl e \<Rightarrow> Inl e
                  | Inr p \<Rightarrow> addPayload (asLaser env) addLaserProfile p s)
            else if ty = Some (JStr ''material'')
            then (case getProp d ''profile'' of
                    Inl e \<Rightarrow> Inl e
                  | Inr p \<Rightarrow> addPayload (asMaterial env) addMaterialProfile p s)
            else Inr s))"

text \<open>
  \<open>importProfile\<close>: the \<open>try\<close> block returns \<open>true\<close>; the \<open>catch\<close> block logs the
  exception and returns \<open>false\<close>. An exception is raised before any map is written, so
  the maps are then as they were. The result is \<open>Inr\<close> of the boolean the promise resolves
  to and the maps after the call, or \<open>Inl\<close> of an exception that leaves the method.
\<close>

definition importProfile ::
  "Decoders \<Rightarrow> string \<Rightarrow> ProfileManagerService \<Rightarrow> js_error + (bool \<times> ProfileManagerService)" where
  "importProfile env profileData s =
    (case importTry env profileData s of
       Inr s' \<Rightarrow> Inr (True, s')
     | Inl e \<Rightarrow> Inr (False, s))"

text \<open>
  The public methods of the manager, and the maps after a call. The three \<open>get\<close> methods,
  the three \<open>getAll\<close> methods and \<open>exportProfile\<close> only read the maps.
\<close>

datatype ProfileKind = PrinterKind | LaserKind | MaterialKind

datatype managerCall =
    ImportProfile string
  | ExportProfile string ProfileKind
  | AddPrinterProfile PrinterProfile
  | AddLaserProfile LaserProfile
  | AddMaterialProfile MaterialProfile
  | GetPrinterProfile string
  | GetLaserProfile string
  | GetMaterialProfiles string
  | GetAllPrinterProfiles
  | GetAllLaserProfiles
  | GetAllMaterialTypes


section \<open>The contracts of the specification\<close>

text \<open>
  The error kinds of the specification, and three of its contracts written from its own
  words, to be compared with the functions above.
\<close>

datatype failure = InvalidInput | InvalidSettings | ProfileNotFound | InvalidMaterial | Cancelled

text \<open>
  The depth curve: generation fails with \<open>InvalidInput\<close> when \<open>depthCurve = custom\<close> but
  \<open>customCurve\<close> is missing.
\<close>

definition spec_applyDepthCurve :: "jsnum \<Rightarrow> DepthMapSettings \<Rightarrow> failure + jsnum" where
  "spec_applyDepthCurve v settings =
    (if depthCurve settings = Custom \<and> customCurve settings = None
     then Inl InvalidInput
     else Inr (applyDepthCurve v settings))"

text \<open>
  \<open>powerFor\<close>: gamma (\<open>value^(1/gamma)\<close>), then contrast
  (\<open>0.5 + (value - 0.5) * (1 + contrast/100)\<close>) and brightness
  (\<open>value + brightness/100\<close>), the clamp to [0,1], the index \<open>floor(value * 255)\<close> into
  the power curve, and the rescaling into \<open>[minPower, maxPower]\<close>.
\<close>

definition spec_powerFor :: "LaserProfile \<Rightarrow> real \<Rightarrow> PowerOptions \<Rightarrow> real" where
  "spec_powerFor profile v opts =
    (let v = v powr (1 / po_gamma opts);
         v = 0.5 + (v - 0.5) * (1 + po_contrast opts / 100);
         v = v + po_brightness opts / 100;
         v = max 0 (min 1 v);
         i = nat \<lfloor>v * 255\<rfloor>
     in po_minPower opts
          + (po_maxPower opts - po_minPower opts) * (powerCurve (lp_settings profile) ! i))"

text \<open>
  \<open>focusOffsetFor\<close>: returns \<open>depth * (1 - 1/refractiveIndex)\<close>; fails with
  \<open>InvalidMaterial\<close> when \<open>refractiveIndex \<le> 0\<close>.
\<close>

definition spec_focusOffsetFor :: "real \<Rightarrow> Material \<Rightarrow> failure + real" where
  "spec_focusOffsetFor depth material =
    (if refractiveIndex material \<le> 0 then Inl InvalidMaterial
     else Inr (depth * (1 - 1 / refractiveIndex material)))"

section \<open>Concrete inputs\<close>

text \<open>A 4 by 4 image, every pixel white and opaque.\<close>

definition white4x4 :: ImageData where
  "white4x4 = \<lparr> width = 4, height = 4, data = replicate 64 255 \<rparr>"

text \<open>Deep engraving settings with the depth, layers and power ramp of the scenario.\<close>

definition scenarioSettings :: DeepEngravingSettings where
  "scenarioSettings =
    \<lparr> maxDepth = 2, passLayers = 4,
      powerRamp = \<lparr> pr_initial = 40, pr_increment = 3, pr_max = 95 \<rparr>,
      speedProfile = \<lparr> sp_initial = 100, sp_reduction = 0.9, sp_min = 20 \<rparr>,
      beamProfile = \<lparr> focusOffset = 0.1, beamOverlap = 50, crosshatchAngle = 90 \<rparr>,
      visualEffects = \<lparr> showLaserTrail = False, trailColor = ''#ff0000'',
                        trailIntensity = 1, pulseEffect = False \<rparr> \<rparr>"


text \<open>
  The first profile of the catalogue of \<open>LaserProfileService\<close>, rated at 50 W, and
  deep engraving settings with the power ramp of the scenario, five layers, and a speed
  profile that starts below zero.
\<close>

definition seamann50W :: LaserProfile where
  "seamann50W = fiberProfile ''Seamann 50W Fiber'' 50 0.12 20000 0.05 8 None"

definition rampSettings :: DeepEngravingSettings where
  "rampSettings =
    \<lparr> maxDepth = 2, passLayers = 5,
      powerRamp = \<lparr> pr_initial = 40, pr_increment = 3, pr_max = 95 \<rparr>,
      speedProfile = \<lparr> sp_initial = - 10, sp_reduction = 0.5, sp_min = - 20 \<rparr>,
      beamProfile = \<lparr> focusOffset = 0.1, beamOverlap = 50, crosshatchAngle = 90 \<rparr>,
      visualEffects = \<lparr> showLaserTrail = False, trailColor = ''#ff0000'',
                        trailIntensity = 1, pulseEffect = False \<rparr> \<rparr>"

text \<open>
  One white, opaque pixel; depth map settings inside their documented ranges, with
  neutral contrast, brightness and gamma, the linear curve and a detail boost of 50;
  and the settings of either service with the custom curve selected and no control
  points given.
\<close>

definition whitePixel :: ImageData where
  "whitePixel = \<lparr> width = 1, height = 1, data = [255, 255, 255, 255] \<rparr>"

definition detailSettings :: DepthMapSettings where
  "detailSettings =
    \<lparr> contrast = 0, brightness = 0, gamma = 1, sharpness = 0,
      baseDepth = 1, dm_maxDepth = 2, minDepth = 0,
      depthCurve = Linear, customCurve = None,
      layers = 4, layerBlending = 50, layerContrast = [],
      detailBoost = 50, microDetail = 0, edgeEnhancement = 0,
      smoothing = 0, adaptiveSmoothing = False, preserveEdges = False,
      normalStrength = 1, aoStrength = 0, heightBlending = 0 \<rparr>"

definition customUnset :: DepthMapSettings where
  "customUnset = detailSettings\<lparr>depthCurve := Custom, customCurve := None\<rparr>"

definition le_customUnset :: HeightmapSettings where
  "le_customUnset =
    \<lparr> le_baseDepth = 1, le_maxDepth = 2, le_minDepth = 0, le_contrast = 0, le_brightness = 0,
      le_gamma = 1, le_sharpness = 0, le_smoothing = 0, le_levels = 1, le_invert = False,
      le_curve = Custom, le_customCurve = None \<rparr>"


text \<open>
  A height map of one cell at full height, and toolpath settings that allow two passes
  of half a unit each.
\<close>

definition unitHeightmap :: "real list list" where
  "unitHeightmap = [[1]]"

definition twoPassSettings :: ToolpathSettings where
  "twoPassSettings =
    \<lparr> strategy = Contour, direction = Bidirectional, lineSpacing = 0.1, angle = 0,
      stepover = 0.5, toolCompensation = 0, smoothingFactor = 0,
      optimizationLevel = Balanced, crosshatch = False, tp_crosshatchAngle = 90,
      depthPerPass = 0.5, maxPasses = 2 \<rparr>"

text \<open>
  Power options with no contrast and no brightness change in the reading of the
  specification (both 0), and with none in the reading of the code (a gain of 1).
\<close>

definition neutralOptions :: PowerOptions where
  "neutralOptions =
    \<lparr> po_contrast = 0, po_brightness = 0, po_gamma = 1, po_minPower = 1, po_maxPower = 50 \<rparr>"

definition gainOptions :: PowerOptions where
  "gainOptions =
    \<lparr> po_contrast = 1, po_brightness = 0, po_gamma = 1, po_minPower = 1, po_maxPower = 50 \<rparr>"

text \<open>Three materials: glass, and two with a refractive index that is not positive.\<close>

definition glass :: Material where
  "glass = \<lparr> refractiveIndex = 1.5, thickness = 3 \<rparr>"

definition negativeIndex :: Material where
  "negativeIndex = \<lparr> refractiveIndex = - 1, thickness = 3 \<rparr>"

definition zeroIndex :: Material where
  "zeroIndex = \<lparr> refractiveIndex = 0, thickness = 3 \<rparr>"

text \<open>
  A parser that agrees with \<open>JSON.parse\<close> on the four texts it is used at below: the
  empty object, an object whose only field is a \<open>type\<close> of \<open>other\<close>, \<open>null\<close>, and a
  text that is not JSON; decoders that ignore the payload; and the first laser profile the
  manager registers. \<open>quote\<close> is the double quote character.
\<close>

definition quote :: char where
  "quote = CHR 0x22"

definition otherDocument :: string where
  "otherDocument =
    ''{'' @ [quote] @ ''type'' @ [quote] @ '':'' @ [quote] @ ''other'' @ [quote] @ ''}''"

definition fixtureParse :: "string \<Rightarrow> js_error + json" where
  "fixtureParse d =
    (if d = ''{}'' then Inr (JObj [])
     else if d = otherDocument then Inr (JObj [(''type'', JStr ''other'')])
     else if d = ''null'' then Inr JNull
     else Inl SyntaxError)"

definition fixtureDecoders :: Decoders where
  "fixtureDecoders =
    \<lparr> parse = fixtureParse,
      asPrinter = (\<lambda>j. msla ''imported'' ''unknown'' \<lparr> vol_x = 1, vol_y = 1, vol_z = 1 \<rparr>
                            \<lparr> res_xy = 1, res_z = 1 \<rparr> []),
      asLaser = (\<lambda>j. seamann50W),
      asMaterial = (\<lambda>j. \<lparr> mp_name = ''imported'', mp_type = ''unknown'', mp_thickness = 1,
                           mp_settings = \<lparr> ms_power = 1, ms_speed = 1, ms_passes = 1,
                                           ms_zOffset = 0, ms_assistGas = None \<rparr> \<rparr>) \<rparr>"


section \<open>The counting loop and finite numbers\<close>

text \<open>The loop pushes the body's value at every index below the bound, in order.\<close>

lemma pushLoop_upt:
  "pushLoop bound body i acc = acc @ map body [i ..< nat \<lceil>bound\<rceil>]"
proof (induction bound body i acc rule: pushLoop.induct)
  case (1 bound body i acc)
  show ?case
  proof (cases "real i < bound")
    case True
    then have "int i < \<lceil>bound\<rceil>" by (simp add: less_ceiling_iff)
    then have lt: "i < nat \<lceil>bound\<rceil>" by linarith
    have "pushLoop bound body i acc = pushLoop bound body (i + 1) (acc @ [body i])"
      using True by (subst pushLoop.simps) simp
    also have "\<dots> = (acc @ [body i]) @ map body [i + 1 ..< nat \<lceil>bound\<rceil>]"
      using "1.IH" [OF True] .
    also have "\<dots> = acc @ map body [i ..< nat \<lceil>bound\<rceil>]"
      using lt by (simp add: upt_conv_Cons)
    finally show ?thesis .
  next
    case False
    then have "\<not> int i < \<lceil>bound\<rceil>" by (simp add: less_ceiling_iff)
    then have "nat \<lceil>bound\<rceil> \<le> i" by linarith
    then show ?thesis using False by (subst pushLoop.simps) simp
  qed
qed

lemma pushLoopJs_Fin: "pushLoopJs (Fin b) body = Some (map body [0 ..< nat \<lceil>b\<rceil>])"
  by (simp add: pushLoopJs_def pushLoop_upt)

text \<open>On finite numbers \<open>Math.min\<close> and \<open>Math.max\<close> are the minimum and the maximum.\<close>

lemma js_max_Fin [simp]: "js_max (Fin a) (Fin b) = Fin (max a b)"
  by (simp add: js_max_def max_def)

lemma js_min_Fin [simp]: "js_min (Fin a) (Fin b) = Fin (min a b)"
  by (simp add: js_min_def min_def)

lemma upt_4: "[0..<4] = [0, 1, 2, 3::nat]"
  by (simp add: upt_rec)

lemma upt_5: "[0..<5] = [0, 1, 2, 3, 4::nat]"
  by (simp add: upt_rec)

section \<open>Rounding\<close>

text \<open>The two searches find the binade, and the binade is unique.\<close>

lemma binade_up_spec:
  "2 powi e \<le> x \<Longrightarrow> 2 powi (binade_up x e) \<le> x \<and> x < 2 powi (binade_up x e + 1)"
proof (induction x e rule: binade_up.induct)
  case (1 x e)
  show ?case
  proof (cases "2 powi (e + 1) \<le> x")
    case True
    then have "binade_up x e = binade_up x (e + 1)"
      by (subst binade_up.simps) simp
    then show ?thesis using "1.IH" [OF True True] by simp
  next
    case False
    then have "binade_up x e = e"
      by (subst binade_up.simps) simp
    then show ?thesis using False "1.prems" by simp
  qed
qed

lemma binade_down_spec:
  "0 < x \<Longrightarrow> x < 2 powi (e + 1)
   \<Longrightarrow> 2 powi (binade_down x e) \<le> x \<and> x < 2 powi (binade_down x e + 1)"
proof (induction x e rule: binade_down.induct)
  case (1 x e)
  show ?case
  proof (cases "x < 2 powi e")
    case True
    then have eq: "binade_down x e = binade_down x (e - 1)"
      using "1.prems"(1) by (subst binade_down.simps) simp
    have "0 < x \<and> x < 2 powi e" using True "1.prems"(1) by simp
    then show ?thesis using "1.IH" "1.prems"(1) True eq by simp
  next
    case False
    then have "binade_down x e = e"
      by (subst binade_down.simps) simp
    then show ?thesis using False "1.prems" by simp
  qed
qed

lemma binade_spec:
  assumes "0 < x"
  shows "2 powi (binade x) \<le> x \<and> x < 2 powi (binade x + 1)"
proof (cases "1 \<le> x")
  case True
  then show ?thesis using binade_up_spec [of 0 x] by (simp add: binade_def)
next
  case False
  then show ?thesis using binade_down_spec [of x "- 1"] assms by (simp add: binade_def)
qed

lemma binade_unique:
  assumes "0 < x" and lo: "2 powi k \<le> x" and hi: "x < 2 powi (k + 1)"
  shows "binade x = k"
proof -
  note s = binade_spec [OF assms(1)]
  have "\<not> binade x < k"
  proof
    assume "binade x < k"
    then have "binade x + 1 \<le> k" by simp
    then have "(2::real) powi (binade x + 1) \<le> 2 powi k"
      by (intro power_int_increasing) simp_all
    then show False using s lo by linarith
  qed
  moreover have "\<not> k < binade x"
  proof
    assume "k < binade x"
    then have "k + 1 \<le> binade x" by simp
    then have "(2::real) powi (k + 1) \<le> 2 powi (binade x)"
      by (intro power_int_increasing) simp_all
    then show False using s hi by linarith
  qed
  ultimately show ?thesis by linarith
qed


lemma round_even_of_int [simp]: "round_even (of_int m) = m"
  by (simp add: round_even_def)





text \<open>
  A number \<open>m * 2^k\<close> with \<open>|m| \<le> 2^53\<close> and \<open>k \<ge> -1074\<close> is a double: rounding leaves it.
\<close>

lemma fl_representable:
  assumes m: "\<bar>m\<bar> \<le> 2 ^ 53" and k: "- 1074 \<le> k"
  shows "fl (of_int m * 2 powi k) = of_int m * 2 powi k"
proof (cases "m = 0")
  case True
  then show ?thesis by (simp add: fl_def)
next
  case False
  define x :: real where "x = of_int m * 2 powi k"
  define e where "e = max (binade \<bar>x\<bar>) (- 1022)"
  have pk: "(0::real) < 2 powi k" by (simp add: zero_less_power_int)
  have ax: "\<bar>x\<bar> = of_int \<bar>m\<bar> * 2 powi k"
    using pk by (simp add: x_def abs_mult)
  have xpos: "0 < \<bar>x\<bar>" using False pk by (simp add: x_def)
  have x0: "x \<noteq> 0" using xpos by simp
  note b = binade_spec [OF xpos]
  have ek: "e - 52 \<le> k \<or> (\<bar>m\<bar> = 2 ^ 53 \<and> e - 52 = k + 1)"
  proof (cases "\<bar>m\<bar> = 2 ^ 53")
    case True
    then have "\<bar>x\<bar> = 2 powi 53 * 2 powi k" by (simp add: ax)
    also have "\<dots> = 2 powi (k + 53)"
      by (simp add: power_int_add)
    finally have eq: "\<bar>x\<bar> = 2 powi (k + 53)" .
    have "binade \<bar>x\<bar> = k + 53"
    proof (rule binade_unique [OF xpos])
      show "2 powi (k + 53) \<le> \<bar>x\<bar>" using eq by simp
      have "(2::real) powi (k + 53) < 2 powi (k + 53 + 1)"
        by (intro power_int_strict_increasing) simp_all
      then show "\<bar>x\<bar> < 2 powi (k + 53 + 1)" using eq by simp
    qed
    then have "e = k + 53" using k by (simp add: e_def)
    then show ?thesis using True by simp
  next
    case False
    then have "\<bar>m\<bar> < 2 ^ 53" using m by linarith
    then have "real_of_int \<bar>m\<bar> < real_of_int (2 ^ 53)"
      by (simp only: of_int_less_iff)
    then have "real_of_int \<bar>m\<bar> < 2 ^ 53" by simp
    then have "\<bar>x\<bar> < 2 powi 53 * 2 powi k"
      using pk by (simp add: ax)
    also have "\<dots> = 2 powi (k + 53)"
      by (simp add: power_int_add)
    finally have lt: "\<bar>x\<bar> < 2 powi (k + 53)" .
    have "\<not> k + 53 \<le> binade \<bar>x\<bar>"
    proof
      assume "k + 53 \<le> binade \<bar>x\<bar>"
      then have "(2::real) powi (k + 53) \<le> 2 powi (binade \<bar>x\<bar>)"
        by (intro power_int_increasing) simp_all
      then show False using b lt by linarith
    qed
    then have "binade \<bar>x\<bar> - 52 \<le> k" by linarith
    then show ?thesis using k by (auto simp: e_def max_def)
  qed
  have "\<exists>n::int. \<bar>x\<bar> / 2 powi (e - 52) = of_int n"
  proof -
    from ek show ?thesis
    proof
      assume le: "e - 52 \<le> k"
      have "(2::real) powi k = 2 powi (k - (e - 52)) * 2 powi (e - 52)"
        by (simp add: power_int_add [symmetric])
      also have "(2::real) powi (k - (e - 52)) = 2 ^ nat (k - (e - 52))"
        using le by (simp add: power_int_def)
      finally have "\<bar>x\<bar> / 2 powi (e - 52) = of_int (\<bar>m\<bar> * 2 ^ nat (k - (e - 52)))"
        by (simp add: ax)
      then show ?thesis by blast
    next
      assume a: "\<bar>m\<bar> = 2 ^ 53 \<and> e - 52 = k + 1"
      then have "\<bar>x\<bar> = 2 powi 53 * 2 powi k" by (simp add: ax)
      also have "\<dots> = 2 powi 52 * 2 powi (k + 1)"
        by (simp add: power_int_add)
      finally have "\<bar>x\<bar> / 2 powi (e - 52) = of_int (2 ^ 52)"
        using a by (simp add: add.commute)
      then show ?thesis by blast
    qed
  qed
  then obtain n :: int where n: "\<bar>x\<bar> / 2 powi (e - 52) = of_int n" by blast
  have "fl x = sgn x * (of_int (round_even (\<bar>x\<bar> / 2 powi (e - 52))) * 2 powi (e - 52))"
    using x0 by (simp add: fl_def e_def Let_def)
  also have "\<dots> = sgn x * (\<bar>x\<bar> / 2 powi (e - 52) * 2 powi (e - 52))"
    by (simp add: n)
  also have "\<dots> = sgn x * \<bar>x\<bar>"
    by simp
  also have "\<dots> = x" by (simp add: sgn_mult_abs)
  finally show ?thesis unfolding x_def .
qed



lemma fl_zero [simp]: "fl 0 = 0"
  by (simp add: fl_def)

lemma fl_one [simp]: "fl 1 = 1"
  using fl_representable [of 1 0] by simp






section \<open>Deep engraving: the passes\<close>

lemma passes_upt:
  "passes (generateDeepEngraving img s) = map (layerPass [] s) [0 ..< nat \<lceil>passLayers s\<rceil>]"
  by (simp add: generateDeepEngraving_def deep_generateEnhancedDepthMap_def pushLoop_upt Let_def)

lemma passes_nth:
  assumes "p < length (passes (generateDeepEngraving img s))"
  shows "passes (generateDeepEngraving img s) ! p = layerPass [] s p"
  using assms by (simp add: passes_upt)

section \<open>Deep engraving: pass count and depths\<close>


text \<open>The doubles of the scenario.\<close>

lemma fl_half [simp]: "fl (1 / 2) = 1 / 2"
  using fl_representable [of 1 "- 1"] by (simp add: power_int_minus)

lemma fl_three_halves [simp]: "fl (3 / 2) = 3 / 2"
  using fl_representable [of 3 "- 1"] by (simp add: power_int_minus)

lemma fl_two [simp]: "fl 2 = 2"
  using fl_representable [of 2 0] by simp






section \<open>Deep engraving: the power and speed ramps\<close>

lemma layerPass_power:
  "pass_power (layerPass dm s p)
     = min (pr_initial (powerRamp s) + pr_increment (powerRamp s) * real p) (pr_max (powerRamp s))"
  by (simp add: layerPass_def Let_def)

lemma layerPass_speed:
  "pass_speed (layerPass dm s p)
     = max (sp_initial (speedProfile s) * sp_reduction (speedProfile s) ^ p) (sp_min (speedProfile s))"
  by (simp add: layerPass_def Let_def)

lemma power_ramp_mono:
  fixes a inc m :: real
  assumes "0 \<le> inc" and "p \<le> q"
  shows "min (a + inc * real p) m \<le> min (a + inc * real q) m"
proof -
  have "inc * real p \<le> inc * real q"
    using assms by (simp add: mult_left_mono)
  then show ?thesis by auto
qed

lemma speed_ramp_antimono:
  fixes v r m :: real
  assumes "0 \<le> v" and "0 < r" and "r \<le> 1" and "p \<le> q"
  shows "max (v * r ^ q) m \<le> max (v * r ^ p) m"
proof -
  have "r ^ q \<le> r ^ p"
    using assms by (simp add: power_decreasing)
  then have "v * r ^ q \<le> v * r ^ p"
    using assms(1) by (rule mult_left_mono)
  then show ?thesis by auto
qed

text \<open>
  C2, as amended. At every pass index \<open>p\<close> the commanded power is
  \<open>min (initial + increment * p) max\<close> and the commanded speed is
  \<open>max (initial * reduction ^ p) min\<close>; the power never exceeds \<open>powerRamp.max\<close> and
  the speed is never below \<open>speedProfile.min\<close>. With a non-negative increment the powers
  do not decrease along the passes; with a non-negative initial speed and a reduction in
  (0, 1] the speeds do not increase. No bound by the \<open>maxPower\<close> of a laser profile is
  stated: the function reads no profile.
\<close>

theorem deep_engraving_power_and_speed_ramps:
  "(\<forall>p < length (passes (generateDeepEngraving img s)).
       pass_power (passes (generateDeepEngraving img s) ! p)
         = min (pr_initial (powerRamp s) + pr_increment (powerRamp s) * real p)
               (pr_max (powerRamp s))
     \<and> pass_speed (passes (generateDeepEngraving img s) ! p)
         = max (sp_initial (speedProfile s) * sp_reduction (speedProfile s) ^ p)
               (sp_min (speedProfile s))
     \<and> pass_power (passes (generateDeepEngraving img s) ! p) \<le> pr_max (powerRamp s)
     \<and> sp_min (speedProfile s) \<le> pass_speed (passes (generateDeepEngraving img s) ! p))
   \<and> (0 \<le> pr_increment (powerRamp s) \<longrightarrow>
        (\<forall>p q. p \<le> q \<and> q < length (passes (generateDeepEngraving img s)) \<longrightarrow>
           pass_power (passes (generateDeepEngraving img s) ! p)
             \<le> pass_power (passes (generateDeepEngraving img s) ! q)))
   \<and> (0 \<le> sp_initial (speedProfile s) \<and> 0 < sp_reduction (speedProfile s)
         \<and> sp_reduction (speedProfile s) \<le> 1 \<longrightarrow>
        (\<forall>p q. p \<le> q \<and> q < length (passes (generateDeepEngraving img s)) \<longrightarrow>
           pass_speed (passes (generateDeepEngraving img s) ! q)
             \<le> pass_speed (passes (generateDeepEngraving img s) ! p)))"
proof (intro conjI allI impI)
  fix p assume p: "p < length (passes (generateDeepEngraving img s))"
  show "pass_power (passes (generateDeepEngraving img s) ! p)
         = min (pr_initial (powerRamp s) + pr_increment (powerRamp s) * real p)
               (pr_max (powerRamp s))"
    by (simp add: passes_nth [OF p] layerPass_power)
  show "pass_speed (passes (generateDeepEngraving img s) ! p)
         = max (sp_initial (speedProfile s) * sp_reduction (speedProfile s) ^ p)
               (sp_min (speedProfile s))"
    by (simp add: passes_nth [OF p] layerPass_speed)
  show "pass_power (passes (generateDeepEngraving img s) ! p) \<le> pr_max (powerRamp s)"
    by (simp add: passes_nth [OF p] layerPass_power)
  show "sp_min (speedProfile s) \<le> pass_speed (passes (generateDeepEngraving img s) ! p)"
    by (simp add: passes_nth [OF p] layerPass_speed)
next
  fix p q
  assume inc: "0 \<le> pr_increment (powerRamp s)"
    and pq: "p \<le> q \<and> q < length (passes (generateDeepEngraving img s))"
  then have p: "p < length (passes (generateDeepEngraving img s))"
    and q: "q < length (passes (generateDeepEngraving img s))" by auto
  show "pass_power (passes (generateDeepEngraving img s) ! p)
          \<le> pass_power (passes (generateDeepEngraving img s) ! q)"
    unfolding passes_nth [OF p] passes_nth [OF q] layerPass_power
    using inc pq by (intro power_ramp_mono) auto
next
  fix p q
  assume sp: "0 \<le> sp_initial (speedProfile s) \<and> 0 < sp_reduction (speedProfile s)
         \<and> sp_reduction (speedProfile s) \<le> 1"
    and pq: "p \<le> q \<and> q < length (passes (generateDeepEngraving img s))"
  then have p: "p < length (passes (generateDeepEngraving img s))"
    and q: "q < length (passes (generateDeepEngraving img s))" by auto
  show "pass_speed (passes (generateDeepEngraving img s) ! q)
          \<le> pass_speed (passes (generateDeepEngraving img s) ! p)"
    unfolding passes_nth [OF p] passes_nth [OF q] layerPass_speed
    using sp pq by (intro speed_ramp_antimono) auto
qed

lemma scenario_passes:
  "passes (generateDeepEngraving img scenarioSettings) = map (layerPass [] scenarioSettings) [0, 1, 2, 3]"
  by (simp add: passes_upt upt_4 scenarioSettings_def)

text \<open>The statement at the settings of the scenario, for the passes 1 and 3.\<close>

theorem deep_engraving_power_and_speed_ramps_witness:
  "0 \<le> pr_increment (powerRamp scenarioSettings)
   \<and> 0 \<le> sp_initial (speedProfile scenarioSettings)
   \<and> 0 < sp_reduction (speedProfile scenarioSettings)
   \<and> sp_reduction (speedProfile scenarioSettings) \<le> 1
   \<and> (1::nat) \<le> 3 \<and> 3 < length (passes (generateDeepEngraving white4x4 scenarioSettings))
   \<and> pass_power (passes (generateDeepEngraving white4x4 scenarioSettings) ! 3) = 49
   \<and> pass_power (passes (generateDeepEngraving white4x4 scenarioSettings) ! 1)
        \<le> pass_power (passes (generateDeepEngraving white4x4 scenarioSettings) ! 3)
   \<and> pass_speed (passes (generateDeepEngraving white4x4 scenarioSettings) ! 3)
        \<le> pass_speed (passes (generateDeepEngraving white4x4 scenarioSettings) ! 1)"
proof -
  have len: "length (passes (generateDeepEngraving white4x4 scenarioSettings)) = 4"
    by (simp add: scenario_passes)
  have hyp: "0 \<le> pr_increment (powerRamp scenarioSettings)
      \<and> 0 \<le> sp_initial (speedProfile scenarioSettings)
      \<and> 0 < sp_reduction (speedProfile scenarioSettings)
      \<and> sp_reduction (speedProfile scenarioSettings) \<le> 1"
    by (simp add: scenarioSettings_def)
  have pw: "pr_initial (powerRamp scenarioSettings) = 40 \<and> pr_increment (powerRamp scenarioSettings) = 3
       \<and> pr_max (powerRamp scenarioSettings) = 95"
    by (simp add: scenarioSettings_def)
  note T = deep_engraving_power_and_speed_ramps [of white4x4 scenarioSettings]
  from T have "pass_power (passes (generateDeepEngraving white4x4 scenarioSettings) ! 3)
         = min (pr_initial (powerRamp scenarioSettings)
                  + pr_increment (powerRamp scenarioSettings) * real 3)
               (pr_max (powerRamp scenarioSettings))"
    using len by simp
  then have a: "pass_power (passes (generateDeepEngraving white4x4 scenarioSettings) ! 3) = 49"
    using pw by simp
  have P: "\<forall>p q. p \<le> q \<and> q < length (passes (generateDeepEngraving white4x4 scenarioSettings)) \<longrightarrow>
           pass_power (passes (generateDeepEngraving white4x4 scenarioSettings) ! p)
             \<le> pass_power (passes (generateDeepEngraving white4x4 scenarioSettings) ! q)"
    using T hyp by blast
  have S: "\<forall>p q. p \<le> q \<and> q < length (passes (generateDeepEngraving white4x4 scenarioSettings)) \<longrightarrow>
           pass_speed (passes (generateDeepEngraving white4x4 scenarioSettings) ! q)
             \<le> pass_speed (passes (generateDeepEngraving white4x4 scenarioSettings) ! p)"
    using T hyp by blast
  have b: "pass_power (passes (generateDeepEngraving white4x4 scenarioSettings) ! 1)
        \<le> pass_power (passes (generateDeepEngraving white4x4 scenarioSettings) ! 3)"
    using P [rule_format, of 1 3] len by simp
  have c: "pass_speed (passes (generateDeepEngraving white4x4 scenarioSettings) ! 3)
        \<le> pass_speed (passes (generateDeepEngraving white4x4 scenarioSettings) ! 1)"
    using S [rule_format, of 1 3] len by simp
  show ?thesis using hyp len a b c by simp
qed

lemma ramp_passes:
  "passes (generateDeepEngraving img rampSettings) = map (layerPass [] rampSettings) [0, 1, 2, 3, 4]"
  by (simp add: passes_upt upt_5 rampSettings_def)

text \<open>
  C2 as stated fails. With the ramp 40, 3, 95 and five layers the fifth pass is commanded
  at 52, above the 50 of the profile \<open>Seamann 50W Fiber\<close> of the service's own
  catalogue. With an initial speed of -10 and a reduction of 0.5 the speed rises from
  -10 to -5 between the first two passes.
\<close>

theorem deep_engraving_ramps_counterexample:
  "pass_power (passes (generateDeepEngraving white4x4 rampSettings) ! 4) = 52
   \<and> min (pr_max (powerRamp rampSettings)) (lp_maxPower seamann50W) = 50
   \<and> \<not> pass_power (passes (generateDeepEngraving white4x4 rampSettings) ! 4)
         \<le> min (pr_max (powerRamp rampSettings)) (lp_maxPower seamann50W)
   \<and> getProfile new_LaserProfileService ''Seamann 50W Fiber'' = Some seamann50W
   \<and> 0 \<le> pr_increment (powerRamp rampSettings)
   \<and> 0 < sp_reduction (speedProfile rampSettings) \<and> sp_reduction (speedProfile rampSettings) \<le> 1
   \<and> pass_speed (passes (generateDeepEngraving white4x4 rampSettings) ! 0) = - 10
   \<and> pass_speed (passes (generateDeepEngraving white4x4 rampSettings) ! 1) = - 5
   \<and> \<not> pass_speed (passes (generateDeepEngraving white4x4 rampSettings) ! 1)
         \<le> pass_speed (passes (generateDeepEngraving white4x4 rampSettings) ! 0)"
proof -
  have a: "pass_power (passes (generateDeepEngraving white4x4 rampSettings) ! 4) = 52"
    by (simp add: ramp_passes layerPass_power) (simp add: rampSettings_def)
  have b: "min (pr_max (powerRamp rampSettings)) (lp_maxPower seamann50W) = 50"
    by (simp add: rampSettings_def seamann50W_def fiberProfile_def)
  have c: "getProfile new_LaserProfileService ''Seamann 50W Fiber'' = Some seamann50W"
    by (simp add: getProfile_def new_LaserProfileService_def defaultProfiles_def seamann50W_def
        fiberProfile_def)
  have d: "pass_speed (passes (generateDeepEngraving white4x4 rampSettings) ! 0) = - 10"
    by (simp add: ramp_passes layerPass_speed) (simp add: rampSettings_def)
  have e: "pass_speed (passes (generateDeepEngraving white4x4 rampSettings) ! 1) = - 5"
    by (simp add: ramp_passes layerPass_speed) (simp add: rampSettings_def)
  have f: "0 \<le> pr_increment (powerRamp rampSettings)
   \<and> 0 < sp_reduction (speedProfile rampSettings) \<and> sp_reduction (speedProfile rampSettings) \<le> 1"
    by (simp add: rampSettings_def)
  show ?thesis using a b c d e f by simp
qed

section \<open>The range of the processed scales\<close>

text \<open>
  The step before the detail step clamps: a processed pixel is a number of [0,1], or
  \<open>NaN\<close>.
\<close>

lemma enhanceLocalContrast_range:
  "enhanceLocalContrast v s = NaN
   \<or> (\<exists>r. enhanceLocalContrast v s = Fin r \<and> 0 \<le> r \<and> r \<le> 1)"
proof -
  define u where
    "u = js_plus (Fin 0.5) (js_times (js_minus v (Fin 0.5)) (Fin (1 + contrast s / 100)))"
  have "enhanceLocalContrast v s
        = (let u' = (if js_less u (Fin 0) then Fin 0 else u)
           in if js_less (Fin 1) u' then Fin 1 else u')"
    by (simp add: enhanceLocalContrast_def u_def Let_def)
  then show ?thesis
    by (cases u) (auto simp: Let_def)
qed

lemma processPixelAtScale_range:
  "processPixelAtScale g x y scale w h s = NaN
   \<or> (\<exists>r. processPixelAtScale g x y scale w h s = Fin r \<and> 0 \<le> r \<and> r \<le> 1)"
  unfolding processPixelAtScale_def Let_def by (rule enhanceLocalContrast_range)

text \<open>
  The detail step, with the blur that writes nothing, multiplies every number of the
  buffer by \<open>1 + detailBoost / 100\<close>, and nothing clamps the product.
\<close>

lemma enhanceDetails_nth:
  assumes "i < length buf" and "buf ! i = Fin v"
  shows "enhanceDetails buf w h s ! i = Fin (v * (1 + detailBoost s / 100))"
  using assms
  by (simp add: enhanceDetails_def gaussianBlur_def f32_nth_def js_minus_def Let_def
      algebra_simps)

lemma whitePixel_grayscale:
  "convertToEnhancedGrayscale whitePixel detailSettings = [Fin 1]"
  by (simp add: convertToEnhancedGrayscale_def whitePixel_def detailSettings_def byteAt_def
      js_pow_def applyContrastBrightness_def js_minus_def js_min_def js_max_def Let_def)

lemma whitePixel_scale_1:
  "processAtScale [Fin 1] 1 1 1 detailSettings = [Fin (3/2)]"
  by (simp add: processAtScale_def processPixelAtScale_def f32_nth_def applyDepthCurve_def
      enhanceLocalContrast_def enhanceDetails_def gaussianBlur_def detailSettings_def
      js_minus_def Let_def)

lemma whitePixel_scale_above:
  "1 < scale \<Longrightarrow> processAtScale g 1 1 scale s = []"
  by (simp add: processAtScale_def enhanceDetails_def Let_def)

text \<open>
  C3 fails on the code. For one white pixel, with neutral contrast, brightness and gamma
  and a detail boost of 50, the buffer of scale 1 holds 1.5 after the detail step.
\<close>

theorem processedScales_leave_unit_interval:
  "processedScales whitePixel detailSettings = [[Fin (3/2)], [], [], []]"
proof -
  have w: "width whitePixel = 1" and h: "height whitePixel = 1"
    by (simp_all add: whitePixel_def)
  show ?thesis
    by (simp add: processedScales_def whitePixel_grayscale w h whitePixel_scale_1
        whitePixel_scale_above Let_def del: One_nat_def)
qed

section \<open>The depth curve without control points\<close>

lemma applyDepthCurve_custom_unset:
  assumes "depthCurve s = Custom" and "customCurve s = None"
  shows "applyDepthCurve v s = v"
  using assms by (simp add: applyDepthCurve_def)

lemma applyDepthCurve_linear: "applyDepthCurve v (s\<lparr>depthCurve := Linear\<rparr>) = v"
  by (simp add: applyDepthCurve_def)

lemma processPixelAtScale_custom_unset:
  assumes "depthCurve s = Custom" and "customCurve s = None"
  shows "processPixelAtScale g x y scale w h s
         = processPixelAtScale g x y scale w h (s\<lparr>depthCurve := Linear\<rparr>)"
  by (simp add: processPixelAtScale_def applyDepthCurve_custom_unset [OF assms]
      applyDepthCurve_linear enhanceLocalContrast_def Let_def)

lemma processAtScale_custom_unset:
  assumes "depthCurve s = Custom" and "customCurve s = None"
  shows "processAtScale g w h scale s = processAtScale g w h scale (s\<lparr>depthCurve := Linear\<rparr>)"
  by (simp add: processAtScale_def processPixelAtScale_custom_unset [OF assms]
      enhanceDetails_def Let_def)

text \<open>
  C4, as amended. When \<open>depthCurve\<close> is \<open>custom\<close> and \<open>customCurve\<close> is unset, the depth
  curve of either service returns its argument unchanged, and the processed scales are
  those of the linear curve: nothing fails.
\<close>

theorem custom_curve_unset_is_linear:
  "(depthCurve s = Custom \<and> customCurve s = None \<longrightarrow>
      applyDepthCurve v s = v
    \<and> processedScales img s = processedScales img (s\<lparr>depthCurve := Linear\<rparr>))
   \<and> (le_curve t = Custom \<and> le_customCurve t = None \<longrightarrow> le_applyDepthCurve v t = v)"
proof (intro conjI impI)
  assume a: "depthCurve s = Custom \<and> customCurve s = None"
  then have c: "depthCurve s = Custom" and u: "customCurve s = None" by auto
  show "applyDepthCurve v s = v"
    by (rule applyDepthCurve_custom_unset [OF c u])
  show "processedScales img s = processedScales img (s\<lparr>depthCurve := Linear\<rparr>)"
    by (simp add: processedScales_def convertToEnhancedGrayscale_def
        processAtScale_custom_unset [OF c u] Let_def)
next
  assume "le_curve t = Custom \<and> le_customCurve t = None"
  then show "le_applyDepthCurve v t = v"
    by (simp add: le_applyDepthCurve_def)
qed

text \<open>The statement at settings of each service, for the value 0.5 and one white pixel.\<close>

theorem custom_curve_unset_is_linear_witness:
  "depthCurve customUnset = Custom \<and> customCurve customUnset = None
   \<and> le_curve le_customUnset = Custom \<and> le_customCurve le_customUnset = None
   \<and> applyDepthCurve (Fin (1/2)) customUnset = Fin (1/2)
   \<and> processedScales whitePixel customUnset
       = processedScales whitePixel (customUnset\<lparr>depthCurve := Linear\<rparr>)
   \<and> le_applyDepthCurve (Fin (1/2)) le_customUnset = Fin (1/2)"
proof -
  have h: "depthCurve customUnset = Custom \<and> customCurve customUnset = None"
    by (simp add: customUnset_def)
  have k: "le_curve le_customUnset = Custom \<and> le_customCurve le_customUnset = None"
    by (simp add: le_customUnset_def)
  show ?thesis
    using custom_curve_unset_is_linear [of customUnset "Fin (1/2)" whitePixel le_customUnset] h k
    by simp
qed

text \<open>
  C4 as stated fails: at these settings the depth curve returns 0.5 for 0.5, where the
  contract of the specification fails with \<open>InvalidInput\<close>.
\<close>

theorem custom_curve_unset_counterexample:
  "depthCurve customUnset = Custom \<and> customCurve customUnset = None
   \<and> applyDepthCurve (Fin (1/2)) customUnset = Fin (1/2)
   \<and> spec_applyDepthCurve (Fin (1/2)) customUnset = Inl InvalidInput
   \<and> Inr (applyDepthCurve (Fin (1/2)) customUnset) \<noteq> spec_applyDepthCurve (Fin (1/2)) customUnset
   \<and> le_applyDepthCurve (Fin (1/2)) le_customUnset = Fin (1/2)"
  by (simp add: customUnset_def le_customUnset_def applyDepthCurve_def spec_applyDepthCurve_def
      le_applyDepthCurve_def)

section \<open>Toolpath planning: the pass count\<close>

lemma foldl_js_max_Fin: "foldl js_max (Fin a) (map Fin xs) = Fin (fold max xs a)"
  by (induction xs arbitrary: a) (simp_all add: max.commute)

lemma Math_max_nonempty:
  assumes "xs \<noteq> []"
  shows "Math_max xs = Fin (Max (set xs))"
proof -
  obtain x ys where xs: "xs = x # ys" using assms by (cases xs) auto
  have "Math_max xs = foldl js_max (Fin x) (map Fin ys)"
    by (simp add: Math_max_def xs js_max_def)
  also have "\<dots> = Fin (fold max ys x)" by (rule foldl_js_max_Fin)
  also have "fold max ys x = Max (set xs)"
    using Max.set_eq_fold [of x ys] by (simp add: xs)
  finally show ?thesis .
qed

text \<open>
  What the planner computes on a map with at least one cell and a non-zero depth per
  pass: the ceiling of the quotient, with no cap.
\<close>

lemma generateOptimizedToolpaths_length:
  assumes "concat heightmap \<noteq> []" and "depthPerPass settings \<noteq> 0"
  shows "map_option length (generateOptimizedToolpaths heightmap settings)
         = Some (nat \<lceil>Max (set (concat heightmap)) * maxPasses settings / depthPerPass settings\<rceil>)"
  using assms
  by (simp add: generateOptimizedToolpaths_def passCount_def Math_max_nonempty pushLoopJs_Fin
      Let_def)

text \<open>The sibling \<open>generatePowerMap\<close> always returns, with no more passes than asked for.\<close>

lemma generatePowerMap_capped:
  "\<exists>ps. generatePowerMap heightmap profile options = Some ps
        \<and> int (length ps) \<le> max 0 \<lceil>pm_passes options\<rceil>"
proof (cases "js_ceil (js_divide (Fin (pm_maxDepth options)) (Fin (pm_depthPerPass options)))")
  case (Fin m)
  have "\<lceil>min m (pm_passes options)\<rceil> \<le> \<lceil>pm_passes options\<rceil>"
    by (intro ceiling_mono) simp
  then show ?thesis
    using Fin by (simp add: generatePowerMap_def actualPasses_def pushLoopJs_Fin Let_def)
next
  case PosInf
  then show ?thesis
    by (simp add: generatePowerMap_def actualPasses_def pushLoopJs_Fin js_min_def Let_def)
next
  case NegInf
  then show ?thesis
    by (simp add: generatePowerMap_def actualPasses_def pushLoopJs_def js_min_def Let_def)
next
  case NaN
  then show ?thesis
    by (simp add: generatePowerMap_def actualPasses_def pushLoopJs_def js_min_def Let_def)
qed

text \<open>
  C5 fails on the code. For a map of one cell of height 1, a depth per pass of 0.5 and
  \<open>maxPasses = 2\<close>, the planner returns four passes.
\<close>

theorem toolpaths_exceed_maxPasses:
  "map_option length (generateOptimizedToolpaths unitHeightmap twoPassSettings) = Some 4
   \<and> map_option (map tp_pass) (generateOptimizedToolpaths unitHeightmap twoPassSettings)
       = Some [1, 2, 3, 4]
   \<and> maxPasses twoPassSettings = 2"
proof -
  have "passCount unitHeightmap twoPassSettings = Fin 4"
    by (simp add: passCount_def unitHeightmap_def twoPassSettings_def Math_max_def js_max_def
        Let_def)
  then have "generateOptimizedToolpaths unitHeightmap twoPassSettings
        = Some (map (toolpathPass unitHeightmap twoPassSettings) [0, 1, 2, 3])"
    by (simp add: generateOptimizedToolpaths_def pushLoopJs_Fin upt_4)
  then show ?thesis
    by (simp add: toolpathPass_def twoPassSettings_def Let_def)
qed

section \<open>Power for a grayscale value\<close>

lemma linearCurve_length: "length linearCurve = 256"
  by (simp add: linearCurve_def)

lemma linearCurve_nth: "i < 256 \<Longrightarrow> linearCurve ! i = real i / 255"
  by (simp add: linearCurve_def)

lemma js_pow_unit_interval:
  assumes "0 \<le> g" and "0 < c"
  shows "js_pow (Fin g) (Fin (1 / c)) = Fin (g powr (1 / c))"
  using assms by (simp add: js_pow_def)

text \<open>
  C6, as amended. For a grayscale value in [0,1], a positive gamma and a power curve of
  256 entries, \<open>calculatePowerForGrayscale\<close> applies gamma as \<open>value^(1/gamma)\<close>, then
  contrast and brightness as \<open>value * contrast + brightness\<close>, clamps to [0,1], reads the
  curve at \<open>floor(value * 255)\<close>, which is a position of the curve, and returns
  \<open>minPower + (maxPower - minPower) * curve[index]\<close>.
\<close>

theorem calculatePowerForGrayscale_formula:
  assumes g: "0 \<le> g" "g \<le> 1" and gam: "0 < po_gamma opts"
    and len: "length (powerCurve (lp_settings profile)) = 256"
  shows "calculatePowerForGrayscale profile g opts
           = Fin (po_minPower opts + (po_maxPower opts - po_minPower opts)
                   * (powerCurve (lp_settings profile)
                        ! nat \<lfloor>max 0 (min 1 (g powr (1 / po_gamma opts) * po_contrast opts
                                                 + po_brightness opts)) * 255\<rfloor>))
       \<and> nat \<lfloor>max 0 (min 1 (g powr (1 / po_gamma opts) * po_contrast opts
                               + po_brightness opts)) * 255\<rfloor> < 256"
proof -
  define c where "c = max 0 (min 1 (g powr (1 / po_gamma opts) * po_contrast opts
                                      + po_brightness opts))"
  have c0: "0 \<le> c" and c1: "c \<le> 1" by (simp_all add: c_def)
  have fl0: "0 \<le> \<lfloor>c * 255\<rfloor>" using c0 by simp
  have "c * 255 \<le> 255" using c1 by simp
  then have "\<lfloor>c * 255\<rfloor> \<le> 255" by (simp add: floor_le_iff)
  then have idx: "nat \<lfloor>c * 255\<rfloor> < 256" by linarith
  have rd: "js_index (powerCurve (lp_settings profile)) (Fin (of_int \<lfloor>c * 255\<rfloor>))
            = Fin (powerCurve (lp_settings profile) ! nat \<lfloor>c * 255\<rfloor>)"
    using fl0 idx len by (simp add: js_index_def js_nth_def)
  have "calculatePowerForGrayscale profile g opts
        = js_plus (Fin (po_minPower opts))
            (js_times (Fin (po_maxPower opts - po_minPower opts))
               (js_index (powerCurve (lp_settings profile)) (Fin (of_int \<lfloor>c * 255\<rfloor>))))"
    using g(1) gam
    by (simp add: calculatePowerForGrayscale_def js_pow_unit_interval len c_def Let_def)
  then show ?thesis
    using idx rd unfolding c_def by simp
qed

text \<open>The statement for a white pixel, a gain of 1 and the 50 W profile.\<close>

theorem calculatePowerForGrayscale_formula_witness:
  "(0::real) \<le> 1 \<and> (1::real) \<le> 1 \<and> 0 < po_gamma gainOptions
   \<and> length (powerCurve (lp_settings seamann50W)) = 256
   \<and> calculatePowerForGrayscale seamann50W 1 gainOptions = Fin 50"
proof -
  have gam: "0 < po_gamma gainOptions" by (simp add: gainOptions_def)
  have len: "length (powerCurve (lp_settings seamann50W)) = 256"
    by (simp add: seamann50W_def fiberProfile_def linearCurve_length)
  have cur: "powerCurve (lp_settings seamann50W) = linearCurve"
    by (simp add: seamann50W_def fiberProfile_def)
  have "calculatePowerForGrayscale seamann50W 1 gainOptions = Fin 50"
    using calculatePowerForGrayscale_formula [OF _ _ gam len, of 1]
    by (simp add: cur linearCurve_nth) (simp add: gainOptions_def)
  then show ?thesis using gam len by simp
qed

text \<open>
  C6 as stated fails. For a white pixel and the neutral options of the specification
  (contrast 0, brightness 0, gamma 1) the function returns the least power, 1, where
  the formula of the specification gives the greatest, 50.
\<close>

theorem calculatePowerForGrayscale_counterexample:
  "calculatePowerForGrayscale seamann50W 1 neutralOptions = Fin 1
   \<and> spec_powerFor seamann50W 1 neutralOptions = 50
   \<and> calculatePowerForGrayscale seamann50W 1 neutralOptions
       \<noteq> Fin (spec_powerFor seamann50W 1 neutralOptions)"
proof -
  have cur: "powerCurve (lp_settings seamann50W) = linearCurve"
    by (simp add: seamann50W_def fiberProfile_def)
  have a: "calculatePowerForGrayscale seamann50W 1 neutralOptions = Fin 1"
    by (simp add: calculatePowerForGrayscale_def cur linearCurve_length js_pow_def
        js_index_def js_nth_def linearCurve_nth neutralOptions_def Let_def)
  have b: "spec_powerFor seamann50W 1 neutralOptions = 50"
    by (simp add: spec_powerFor_def cur linearCurve_nth neutralOptions_def Let_def)
  show ?thesis using a b by simp
qed

section \<open>The custom curve\<close>




text \<open>The doubles of the curve 0, 0.25, 1.\<close>

lemma fl_quarter [simp]: "fl (1 / 4) = 1 / 4"
  using fl_representable [of 1 "- 2"] by (simp add: power_int_minus)







section \<open>The focal adjustment\<close>

text \<open>
  C8, as amended. For every depth and every refractive index other than zero, negative
  ones included, \<open>calculateFocalAdjustment\<close> returns
  \<open>depth * (1 - 1/refractiveIndex)\<close>; at zero its result is not a finite number. It
  fails for no material.
\<close>

theorem calculateFocalAdjustment_formula:
  "(refractiveIndex material \<noteq> 0 \<longrightarrow>
      calculateFocalAdjustment depth material
        = Fin (depth * (1 - 1 / refractiveIndex material)))
   \<and> (refractiveIndex material = 0 \<longrightarrow>
      calculateFocalAdjustment depth material \<in> {PosInf, NegInf, NaN})"
  by (simp add: calculateFocalAdjustment_def js_minus_def infOfSign_def Let_def)

text \<open>The statement for glass and for an index of zero, at the depth 3.\<close>

theorem calculateFocalAdjustment_formula_witness:
  "refractiveIndex glass \<noteq> 0 \<and> calculateFocalAdjustment 3 glass = Fin 1
   \<and> refractiveIndex zeroIndex = 0 \<and> calculateFocalAdjustment 3 zeroIndex \<in> {PosInf, NegInf, NaN}"
proof -
  have g: "refractiveIndex glass \<noteq> 0" by (simp add: glass_def)
  have z: "refractiveIndex zeroIndex = 0" by (simp add: zeroIndex_def)
  have "calculateFocalAdjustment 3 glass = Fin (3 * (1 - 1 / refractiveIndex glass))"
    using calculateFocalAdjustment_formula [of glass 3] g by simp
  then have a: "calculateFocalAdjustment 3 glass = Fin 1" by (simp add: glass_def)
  have b: "calculateFocalAdjustment 3 zeroIndex \<in> {PosInf, NegInf, NaN}"
    using calculateFocalAdjustment_formula [of zeroIndex 3] z by simp
  show ?thesis using g z a b by simp
qed

text \<open>
  C8 as stated fails. With a refractive index of -1 the function returns 2 for the
  depth 1, where the contract of the specification fails with \<open>InvalidMaterial\<close>.
\<close>

theorem calculateFocalAdjustment_counterexample:
  "refractiveIndex negativeIndex \<le> 0
   \<and> calculateFocalAdjustment 1 negativeIndex = Fin 2
   \<and> spec_focusOffsetFor 1 negativeIndex = Inl InvalidMaterial"
  by (simp add: calculateFocalAdjustment_def spec_focusOffsetFor_def negativeIndex_def
      js_minus_def Let_def)

section \<open>The profile registries\<close>













section \<open>Importing a profile\<close>

lemma getProp_not_null:
  "j \<noteq> JNull \<Longrightarrow> \<exists>v. getProp j k = Inr v"
  by (cases j) simp_all

text \<open>
  C10, as amended. \<open>importProfile\<close> never lets an exception out. When the text is not
  JSON it returns \<open>false\<close> and the maps are unchanged. When the text parses to a value
  other than \<open>null\<close> whose \<open>type\<close> property, absent or present, is none of \<open>printer\<close>,
  \<open>laser\<close> and \<open>material\<close>, it returns \<open>true\<close> and the maps are unchanged. When the
  text parses to \<open>null\<close>, reading the property raises an exception that is caught: it
  returns \<open>false\<close> and the maps are unchanged.
\<close>

theorem importProfile_never_throws:
  "(\<exists>ok s'. importProfile env d s = Inr (ok, s'))
   \<and> ((\<exists>e. parse env d = Inl e) \<longrightarrow> importProfile env d s = Inr (False, s))
   \<and> (\<forall>j. parse env d = Inr j \<and> j \<noteq> JNull
          \<and> getProp j ''type'' \<noteq> Inr (Some (JStr ''printer''))
          \<and> getProp j ''type'' \<noteq> Inr (Some (JStr ''laser''))
          \<and> getProp j ''type'' \<noteq> Inr (Some (JStr ''material''))
        \<longrightarrow> importProfile env d s = Inr (True, s))
   \<and> (parse env d = Inr JNull \<longrightarrow> importProfile env d s = Inr (False, s))"
proof (intro conjI impI allI)
  show "\<exists>ok s'. importProfile env d s = Inr (ok, s')"
    by (cases "importTry env d s") (auto simp: importProfile_def)
next
  assume "\<exists>e. parse env d = Inl e"
  then show "importProfile env d s = Inr (False, s)"
    by (auto simp: importProfile_def importTry_def)
next
  fix j
  assume a: "parse env d = Inr j \<and> j \<noteq> JNull
          \<and> getProp j ''type'' \<noteq> Inr (Some (JStr ''printer''))
          \<and> getProp j ''type'' \<noteq> Inr (Some (JStr ''laser''))
          \<and> getProp j ''type'' \<noteq> Inr (Some (JStr ''material''))"
  then obtain ty where ty: "getProp j ''type'' = Inr ty"
    using getProp_not_null [of j "''type''"] by blast
  then show "importProfile env d s = Inr (True, s)"
    using a by (simp add: importProfile_def importTry_def)
next
  assume "parse env d = Inr JNull"
  then show "importProfile env d s = Inr (False, s)"
    by (simp add: importProfile_def importTry_def)
qed

text \<open>
  The statement at a text that is not JSON, at the empty object, at an object whose
  \<open>type\<close> is \<open>other\<close>, and at \<open>null\<close>.
\<close>

theorem importProfile_never_throws_witness:
  "parse fixtureDecoders ''not json'' = Inl SyntaxError
   \<and> importProfile fixtureDecoders ''not json'' new_ProfileManagerService
       = Inr (False, new_ProfileManagerService)
   \<and> parse fixtureDecoders ''{}'' = Inr (JObj []) \<and> JObj [] \<noteq> JNull
   \<and> getProp (JObj []) ''type'' = Inr None
   \<and> importProfile fixtureDecoders ''{}'' new_ProfileManagerService
       = Inr (True, new_ProfileManagerService)
   \<and> parse fixtureDecoders otherDocument = Inr (JObj [(''type'', JStr ''other'')])
   \<and> getProp (JObj [(''type'', JStr ''other'')]) ''type'' = Inr (Some (JStr ''other''))
   \<and> importProfile fixtureDecoders otherDocument new_ProfileManagerService
       = Inr (True, new_ProfileManagerService)
   \<and> parse fixtureDecoders ''null'' = Inr JNull
   \<and> importProfile fixtureDecoders ''null'' new_ProfileManagerService
       = Inr (False, new_ProfileManagerService)"
proof -
  note T = importProfile_never_throws [of fixtureDecoders _ new_ProfileManagerService]
  have p1: "parse fixtureDecoders ''not json'' = Inl SyntaxError"
    by (simp add: fixtureDecoders_def fixtureParse_def otherDocument_def)
  have p2: "parse fixtureDecoders ''{}'' = Inr (JObj [])"
    by (simp add: fixtureDecoders_def fixtureParse_def)
  have p3: "parse fixtureDecoders otherDocument = Inr (JObj [(''type'', JStr ''other'')])"
    by (simp add: fixtureDecoders_def fixtureParse_def otherDocument_def)
  have p4: "parse fixtureDecoders ''null'' = Inr JNull"
    by (simp add: fixtureDecoders_def fixtureParse_def otherDocument_def)
  have n2: "JObj [] \<noteq> JNull" by simp
  have g2: "getProp (JObj []) ''type'' = Inr None" by simp
  have g3: "getProp (JObj [(''type'', JStr ''other'')]) ''type'' = Inr (Some (JStr ''other''))"
    by simp
  have a: "importProfile fixtureDecoders ''not json'' new_ProfileManagerService
       = Inr (False, new_ProfileManagerService)"
    using T [of "''not json''", THEN conjunct2, THEN conjunct1] p1 by simp
  have b: "importProfile fixtureDecoders ''{}'' new_ProfileManagerService
       = Inr (True, new_ProfileManagerService)"
    using T [of "''{}''", THEN conjunct2, THEN conjunct2, THEN conjunct1, rule_format,
        of "JObj []"] p2 g2 by simp
  have c: "importProfile fixtureDecoders otherDocument new_ProfileManagerService
       = Inr (True, new_ProfileManagerService)"
    using T [of otherDocument, THEN conjunct2, THEN conjunct2, THEN conjunct1, rule_format,
        of "JObj [(''type'', JStr ''other'')]"] p3 g3 by simp
  have e: "importProfile fixtureDecoders ''null'' new_ProfileManagerService
       = Inr (False, new_ProfileManagerService)"
    using T [of "''null''", THEN conjunct2, THEN conjunct2, THEN conjunct2] p4 by simp
  show ?thesis by (intro conjI p1 a p2 n2 g2 b p3 g3 c p4 e)
qed

text \<open>
  C10 as stated fails. The text \<open>null\<close> is a well-formed JSON document and its \<open>type\<close>
  is none of \<open>printer\<close>, \<open>laser\<close> and \<open>material\<close>, yet \<open>importProfile\<close> returns
  \<open>false\<close>: reading \<open>data.type\<close> raises a \<open>TypeError\<close>, which the \<open>catch\<close> block
  turns into \<open>false\<close>.
\<close>

theorem importProfile_null_counterexample:
  "parse fixtureDecoders ''null'' = Inr JNull
   \<and> getProp JNull ''type'' = Inl TypeError
   \<and> importProfile fixtureDecoders ''null'' new_ProfileManagerService
       = Inr (False, new_ProfileManagerService)
   \<and> importProfile fixtureDecoders ''null'' new_ProfileManagerService
       \<noteq> Inr (True, new_ProfileManagerService)"
proof -
  have p: "parse fixtureDecoders ''null'' = Inr JNull"
    by (simp add: fixtureDecoders_def fixtureParse_def otherDocument_def)
  have r: "importProfile fixtureDecoders ''null'' new_ProfileManagerService
       = Inr (False, new_ProfileManagerService)"
    by (simp add: importProfile_def importTry_def p)
  show ?thesis using p r by simp
qed

end
